theory Spec2Isabelle
  imports Main "HOL-Library.Word"
begin

section \<open>Shared data\<close>

text \<open>
  A Go \<^verbatim>\<open>string\<close> and a Go \<^verbatim>\<open>[]byte\<close> are both sequences of 8-bit values, and an
  Isabelle \<^typ>\<open>char\<close> is one 8-bit value. Both are modelled as \<^typ>\<open>string\<close>, so the
  conversions \<^verbatim>\<open>string(b)\<close> and \<^verbatim>\<open>[]byte(s)\<close> of the source are identities here.
\<close>

type_synonym bytes = string

type_synonym int64 = "64 word"

text \<open>
  A Go \<^verbatim>\<open>error\<close> value. \<^verbatim>\<open>ErrTimeout\<close> is the package variable of client.go;
  \<^verbatim>\<open>errors.New(s)\<close> builds a fresh error with text \<^verbatim>\<open>s\<close>. Errors handed back by
  the card session or by a library are values of the same type.
\<close>

datatype error = ErrTimeout | ErrorsNew bytes

fun Error :: "error \<Rightarrow> bytes" where
  "Error ErrTimeout = ''Timeout''"
| "Error (ErrorsNew s) = s"

text \<open>
  \<^verbatim>\<open>ecdsa.PublicKey\<close> (the curve is fixed by the card and left out) and the signature
  with its two big integers.
\<close>

record PublicKey =
  keyX :: int
  keyY :: int

record Signature =
  sigR :: int
  sigS :: int

section \<open>validator/btc.go\<close>

record Coin =
  coinValue :: int64
  coinAddress :: string

record input =
  inputCoin :: Coin

record txOutput =
  outValue :: int64
  outAddress :: string

record transaction =
  Hash :: string
  Inputs :: "input list"
  Outputs :: "txOutput list"

type_synonym transactionList = "transaction list"

text \<open>
  \<^verbatim>\<open>model.Phonon\<close> is declared outside the files at hand. Validate reads its field
  \<^verbatim>\<open>PubKey\<close>; the value the phonon states is the field \<open>claimedValue\<close>
  (the "claimedValue" of the validator capability), which Validate never reads.
\<close>

record Phonon =
  PubKey :: PublicKey
  claimedValue :: int64

text \<open>
  What Validate obtains from outside the program: the five addresses that the btcutil
  library derives from a key (or its error), and the answer of the bcoin indexing
  service to \<^verbatim>\<open>GetTransactions\<close> (the transactions of the addresses, or an error).
\<close>

record BTCValidator =
  pubKeyToAddresses :: "PublicKey \<Rightarrow> error + string list"
  GetTransactions :: "string list \<Rightarrow> error + transactionList"

text \<open>The inner loops of aggregateTransactions: one pass over the addresses.\<close>

definition inputLoop :: "string list \<Rightarrow> int64 \<Rightarrow> input \<Rightarrow> int64" where
  "inputLoop addresses runningTotal inp =
     foldl (\<lambda>rt address.
              if coinAddress (inputCoin inp) = address then rt - coinValue (inputCoin inp) else rt)
           runningTotal addresses"

definition outputLoop :: "string list \<Rightarrow> int64 \<Rightarrow> txOutput \<Rightarrow> int64" where
  "outputLoop addresses runningTotal outp =
     foldl (\<lambda>rt address. if outAddress outp = address then rt + outValue outp else rt)
           runningTotal addresses"

definition transactionLoop :: "string list \<Rightarrow> int64 \<Rightarrow> transaction \<Rightarrow> int64" where
  "transactionLoop addresses runningTotal tx =
     foldl (outputLoop addresses) (foldl (inputLoop addresses) runningTotal (Inputs tx))
           (Outputs tx)"

definition aggregateTransactions :: "transactionList \<Rightarrow> string list \<Rightarrow> int64 \<times> error option" where
  "aggregateTransactions txl addresses = (foldl (transactionLoop addresses) 0 txl, None)"

text \<open>
  getBalance overwrites the error of GetTransactions with the one of
  aggregateTransactions, so a failed fetch continues with the nil transaction list.
\<close>

definition getBalance :: "BTCValidator \<Rightarrow> string list \<Rightarrow> error + int64" where
  "getBalance b addresses =
     (let transactions = (case GetTransactions b addresses of Inl e \<Rightarrow> [] | Inr txl \<Rightarrow> txl)
      in case aggregateTransactions transactions addresses of
           (balance, Some e) \<Rightarrow> Inl e
         | (balance, None) \<Rightarrow> Inr balance)"

definition Validate :: "BTCValidator \<Rightarrow> Phonon \<Rightarrow> bool \<times> error option" where
  "Validate b phonon =
     (case pubKeyToAddresses b (PubKey phonon) of
        Inl e \<Rightarrow> (False, Some e)
      | Inr addresses \<Rightarrow>
          (case getBalance b addresses of
             Inl e \<Rightarrow> (False, Some e)
           | Inr balance \<Rightarrow> if balance = 0 then (False, None) else (True, None)))"

text \<open>
  A validator for the examples. The key is the generator point of secp256k1 (the public
  key of the private key 1), a point of the curve \<open>y\<^sup>2 = x\<^sup>3 + 7\<close> modulo
  \<open>2\<^sup>2\<^sup>5\<^sup>6 - 2\<^sup>3\<^sup>2 - 977\<close>. Its five addresses are the ones pubKeyToAddresses
  returns for it on the main net, in the order of the source: pay-to-script-hash of the
  witness program of the compressed and of the uncompressed key, then pay-to-pubkey-hash
  of the compressed, the uncompressed and the hybrid key. For any other key the example
  has no addresses. The chain holds one transaction paying 1 unit to the third address.
\<close>

definition secp256k1P :: int where
  "secp256k1P = 2 ^ 256 - 2 ^ 32 - 977"

definition generatorKey :: PublicKey where
  "generatorKey =
     \<lparr> keyX = 55066263022277343669578718895168534326250603453777594175500187360389116729240,
       keyY = 32670510020758816978083085130507043184471273380659243275938904335757337482424 \<rparr>"

definition generatorAddresses :: "string list" where
  "generatorAddresses =
     [''3JvL6Ymt8MVWiCNHC7oWU6nLeHNJKLZGLN'', ''33q2i3GDkpHFAXnD3UdBsKhxzg7pvwAqtN'',
      ''1BgGZ9tcN4rm9KBzDn7KprQz87SZ26SAMH'', ''1EHNa6Q4Jz2uvNExL497mE43ikXhwF6kZm'',
      ''1H7NX5uHwz2Ks5JSqeDcUpvRPNubMhLoLN'']"

definition oneUnitChain :: BTCValidator where
  "oneUnitChain =
     \<lparr> pubKeyToAddresses =
         (\<lambda>k. if k = generatorKey then Inr generatorAddresses
              else Inl (ErrorsNew ''key outside the example'')),
       GetTransactions =
         (\<lambda>as. Inr [\<lparr> Hash = ''h0'', Inputs = [],
                       Outputs = [\<lparr> outValue = 1,
                                    outAddress = ''1BgGZ9tcN4rm9KBzDn7KprQz87SZ26SAMH'' \<rparr>] \<rparr>]) \<rparr>"

definition phonon100 :: Phonon where
  "phonon100 = \<lparr> PubKey = generatorKey, claimedValue = 100 \<rparr>"

section \<open>remote/client.go\<close>

subsection \<open>Envelopes, the card session and the connection\<close>

text \<open>
  The message names are string constants declared beside client.go; \<open>process\<close> switches
  on them. They are taken as distinct tags; any other name is \<open>OtherName\<close>.
\<close>

datatype messageName =
    RequestCertificate | ResponseCertificate
  | RequestIdentify | ResponseIdentify
  | MessageError | MessageIdentifiedWithServer | MessageConnectedToCard
  | RequestCardPair1 | ResponseCardPair1
  | RequestFinalizeCardPair | ResponseFinalizeCardPair
  | MessagePhononAck | RequestReceivePhonon
  | RequestConnectCard2Card
  | OtherName string

record Message =
  Name :: messageName
  Payload :: bytes

text \<open>
  \<^verbatim>\<open>card.Session\<close>: the field \<^verbatim>\<open>RemoteCard\<close> that client.go writes (a reference to a
  connection, here the connection's address) and the state \<open>card\<close> of the hardware
  behind it, which only the session's own methods read and write.
\<close>

record 's Session =
  RemoteCard :: "nat option"
  card :: 's

text \<open>
  What client.go calls outside itself. The methods of the card session take the hardware
  state and return it with their Go results (a value and an error are both returned, as
  in Go; the error is \<open>None\<close> for nil). The parsers, the serialisers and
  \<^verbatim>\<open>ecdsa.Verify\<close> are functions of their arguments.
\<close>

record ('cert, 's) externals =
  sessionGetCertificate :: "'s \<Rightarrow> ('cert \<times> error option) \<times> 's"
  sessionIdentifyCard :: "bytes \<Rightarrow> 's \<Rightarrow> (PublicKey \<times> Signature \<times> error option) \<times> 's"
  sessionCardPair :: "bytes \<Rightarrow> 's \<Rightarrow> (bytes \<times> error option) \<times> 's"
  sessionFinalizeCardPair :: "bytes \<Rightarrow> 's \<Rightarrow> error option \<times> 's"
  sessionReceivePhonons :: "bytes \<Rightarrow> 's \<Rightarrow> error option \<times> 's"
  Serialize :: "'cert \<Rightarrow> bytes"
  ParseRawCardCertificate :: "bytes \<Rightarrow> error + 'cert"
  ParseIdentifyCardResponse :: "bytes \<Rightarrow> error + PublicKey \<times> Signature"
  ecdsaVerify :: "PublicKey \<Rightarrow> bytes \<Rightarrow> int \<Rightarrow> int \<Rightarrow> bool"
  gobEncode :: "Signature \<Rightarrow> bytes"

datatype stream = Open | Closed

text \<open>
  The struct RemoteConnection. \<open>self\<close> is the address of the struct (what \<^verbatim>\<open>c\<close>
  denotes where the source stores it in the session); \<open>conn\<close> is the state of the
  stream; \<open>encoder\<close> is the sequence of envelopes handed to the gob encoder so far.
  Every channel is made with capacity 1: it is empty (\<open>None\<close>) or holds one value.
\<close>

record ('cert, 's) RemoteConnection =
  self :: nat
  conn :: stream
  encoder :: "Message list"
  remoteCertificate :: "'cert option"
  session :: "'s Session"
  identifiedWithServerChan :: "bool option"
  identifiedWithServer :: bool
  counterpartyNonce :: bytes
  verified :: bool
  connectedToCardChan :: "bool option"
  pairFinalized :: bool
  remoteCertificateChan :: "'cert option"
  remoteIdentityChan :: "bytes option"
  cardPair1DataChan :: "bytes option"
  finalizeCardPairDataChan :: "bytes option"
  phononAckChan :: "bool option"

text \<open>
  The struct that Connect builds around the session \<open>s\<close>, at address \<open>addr\<close>: every
  channel empty, every flag false, the nonce array zeroed, nothing cached.
\<close>

definition remoteConn :: "'s Session \<Rightarrow> nat \<Rightarrow> ('cert, 's) RemoteConnection" where
  "remoteConn s addr =
     \<lparr> self = addr, conn = Open, encoder = [], remoteCertificate = None, session = s,
       identifiedWithServerChan = None, identifiedWithServer = False,
       counterpartyNonce = replicate 32 (CHR 0x00), verified = False,
       connectedToCardChan = None, pairFinalized = False,
       remoteCertificateChan = None, remoteIdentityChan = None,
       cardPair1DataChan = None, finalizeCardPairDataChan = None,
       phononAckChan = None \<rparr>"

text \<open>
  Connect, given the outcome of dialling the URL: \<open>Some t\<close> when the dial fails, \<open>t\<close>
  being the text \<^verbatim>\<open>fmt.Errorf\<close> builds from the failure.
\<close>

definition Connect ::
  "bytes option \<Rightarrow> 's Session \<Rightarrow> nat \<Rightarrow> error + ('cert, 's) RemoteConnection" where
  "Connect dial s addr =
     (case dial of
        Some t \<Rightarrow> Inl (ErrorsNew t)
      | None \<Rightarrow> Inr (remoteConn s addr))"

text \<open>
  sendMessage hands one envelope to the encoder; the error of \<^verbatim>\<open>Encode\<close> is dropped
  by the source, so the model records the envelope and nothing else.
\<close>

definition sendMessage ::
  "messageName \<Rightarrow> bytes \<Rightarrow> ('cert, 's) RemoteConnection \<Rightarrow> ('cert, 's) RemoteConnection" where
  "sendMessage messageName messagePayload c =
     c\<lparr>encoder := encoder c @ [\<lparr> Name = messageName, Payload = messagePayload \<rparr>]\<rparr>"

text \<open>The hardware state after a call of a session method.\<close>

definition setCard :: "'s \<Rightarrow> ('cert, 's) RemoteConnection \<Rightarrow> ('cert, 's) RemoteConnection" where
  "setCard s c = c\<lparr>session := (session c)\<lparr>card := s\<rparr>\<rparr>"

subsection \<open>The request processing methods\<close>

text \<open>
  Each handler follows its source line by line. Where the source logs an error of the
  session and carries on (sendCertificate, processCardPair1), the model carries on with
  the value the session returned beside the error.
\<close>

definition sendCertificate ::
  "('cert, 's) externals \<Rightarrow> Message \<Rightarrow> ('cert, 's) RemoteConnection
   \<Rightarrow> ('cert, 's) RemoteConnection" where
  "sendCertificate X msg c =
     (case sessionGetCertificate X (card (session c)) of
        ((cert, err), s) \<Rightarrow> sendMessage ResponseCertificate (Serialize X cert) (setCard s c))"

definition sendIdentify ::
  "('cert, 's) externals \<Rightarrow> Message \<Rightarrow> ('cert, 's) RemoteConnection
   \<Rightarrow> ('cert, 's) RemoteConnection" where
  "sendIdentify X msg c =
     (case sessionIdentifyCard X (Payload msg) (card (session c)) of
        ((key, sig, err), s) \<Rightarrow>
          (case err of
             Some e \<Rightarrow> setCard s c
           | None \<Rightarrow> sendMessage ResponseIdentify (gobEncode X sig) (setCard s c)))"

definition processIdentify ::
  "('cert, 's) externals \<Rightarrow> Message \<Rightarrow> ('cert, 's) RemoteConnection
   \<Rightarrow> ('cert, 's) RemoteConnection" where
  "processIdentify X msg c =
     (case ParseIdentifyCardResponse X (Payload msg) of
        Inl e \<Rightarrow> c
      | Inr (key, sig) \<Rightarrow>
          if \<not> ecdsaVerify X key (counterpartyNonce c) (sigR sig) (sigS sig) then c
          else c\<lparr>verified := True\<rparr>)"

definition processCardPair1 ::
  "('cert, 's) externals \<Rightarrow> Message \<Rightarrow> ('cert, 's) RemoteConnection
   \<Rightarrow> ('cert, 's) RemoteConnection" where
  "processCardPair1 X msg c =
     (case sessionCardPair X (Payload msg) (card (session c)) of
        ((cardPairData, err), s) \<Rightarrow> sendMessage ResponseCardPair1 cardPairData (setCard s c))"

definition processFinalizeCardPair ::
  "('cert, 's) externals \<Rightarrow> Message \<Rightarrow> ('cert, 's) RemoteConnection
   \<Rightarrow> ('cert, 's) RemoteConnection" where
  "processFinalizeCardPair X msg c =
     (case sessionFinalizeCardPair X (Payload msg) (card (session c)) of
        (Some e, s) \<Rightarrow> sendMessage ResponseFinalizeCardPair (Error e) (setCard s c)
      | (None, s) \<Rightarrow>
          (let c1 = sendMessage ResponseFinalizeCardPair [] (setCard s c);
               c2 = c1\<lparr>pairFinalized := True\<rparr>
           in c2\<lparr>session := (session c2)\<lparr>RemoteCard := Some (self c2)\<rparr>\<rparr>))"

definition processReceivePhonons ::
  "('cert, 's) externals \<Rightarrow> Message \<Rightarrow> ('cert, 's) RemoteConnection
   \<Rightarrow> ('cert, 's) RemoteConnection" where
  "processReceivePhonons X msg c =
     (case sessionReceivePhonons X (Payload msg) (card (session c)) of
        (Some e, s) \<Rightarrow> setCard s c
      | (None, s) \<Rightarrow> sendMessage MessagePhononAck [] (setCard s c))"

text \<open>
  A send on a channel that already holds its one value blocks the dispatch loop. The
  handlers that send on a channel return \<open>None\<close> then; in each of them the send comes
  before any write to the connection, so a blocked handler has changed nothing.
\<close>

definition receiveCertificate ::
  "('cert, 's) externals \<Rightarrow> Message \<Rightarrow> ('cert, 's) RemoteConnection
   \<Rightarrow> ('cert, 's) RemoteConnection option" where
  "receiveCertificate X msg c =
     (case ParseRawCardCertificate X (Payload msg) of
        Inl e \<Rightarrow> Some c
      | Inr remoteCert \<Rightarrow>
          (case remoteCertificateChan c of
             Some v \<Rightarrow> None
           | None \<Rightarrow>
               Some (c\<lparr>remoteCertificateChan := Some remoteCert,
                       remoteCertificate := Some remoteCert\<rparr>)))"

definition process ::
  "('cert, 's) externals \<Rightarrow> Message \<Rightarrow> ('cert, 's) RemoteConnection
   \<Rightarrow> ('cert, 's) RemoteConnection option" where
  "process X msg c =
     (case Name msg of
        RequestCertificate \<Rightarrow> Some (sendCertificate X msg c)
      | ResponseCertificate \<Rightarrow> receiveCertificate X msg c
      | RequestIdentify \<Rightarrow> Some (sendIdentify X msg c)
      | ResponseIdentify \<Rightarrow> Some (processIdentify X msg c)
      | MessageError \<Rightarrow> Some c
      | MessageIdentifiedWithServer \<Rightarrow>
          (case identifiedWithServerChan c of
             Some v \<Rightarrow> None
           | None \<Rightarrow> Some (c\<lparr>identifiedWithServerChan := Some True,
                              identifiedWithServer := True\<rparr>))
      | MessageConnectedToCard \<Rightarrow>
          (case connectedToCardChan c of
             Some v \<Rightarrow> None
           | None \<Rightarrow> Some (c\<lparr>connectedToCardChan := Some True\<rparr>))
      | RequestCardPair1 \<Rightarrow> Some (processCardPair1 X msg c)
      | ResponseCardPair1 \<Rightarrow>
          (case cardPair1DataChan c of
             Some v \<Rightarrow> None
           | None \<Rightarrow> Some (c\<lparr>cardPair1DataChan := Some (Payload msg)\<rparr>))
      | RequestFinalizeCardPair \<Rightarrow> Some (processFinalizeCardPair X msg c)
      | ResponseFinalizeCardPair \<Rightarrow>
          (case finalizeCardPairDataChan c of
             Some v \<Rightarrow> None
           | None \<Rightarrow> Some (c\<lparr>finalizeCardPairDataChan := Some (Payload msg)\<rparr>))
      | MessagePhononAck \<Rightarrow>
          (case phononAckChan c of
             Some v \<Rightarrow> None
           | None \<Rightarrow> Some (c\<lparr>phononAckChan := Some True\<rparr>))
      | RequestReceivePhonon \<Rightarrow> Some (processReceivePhonons X msg c)
      | RequestConnectCard2Card \<Rightarrow> Some c
      | OtherName n \<Rightarrow> Some c)"

text \<open>
  The dispatch loop of HandleIncoming on the envelopes decoded from the stream, in order.
  With nobody receiving, a handler that blocks stays blocked, and the loop stops there.
\<close>

fun HandleIncoming ::
  "('cert, 's) externals \<Rightarrow> Message list \<Rightarrow> ('cert, 's) RemoteConnection
   \<Rightarrow> ('cert, 's) RemoteConnection" where
  "HandleIncoming X [] c = c"
| "HandleIncoming X (message # rest) c =
     (case process X message c of
        None \<Rightarrow> c
      | Some c' \<Rightarrow> HandleIncoming X rest c')"

subsection \<open>The methods of the remote counterparty\<close>

text \<open>
  The select between a receive on a channel and the 10-second timer. \<open>get\<close> reads the
  channel and \<open>clr\<close> empties it; \<open>msgs\<close> are the envelopes the dispatch loop handles,
  one handler at a time, while the caller waits. The caller receives as soon as the
  channel holds a value (the first component is then \<open>Some\<close> of it). When the loop has
  handled all of \<open>msgs\<close>, or is blocked sending on another channel, and the channel is
  still empty, the timer fires (the first component is \<open>None\<close>).
\<close>

fun await ::
  "('cert, 's) externals \<Rightarrow> (('cert, 's) RemoteConnection \<Rightarrow> 'v option)
   \<Rightarrow> (('cert, 's) RemoteConnection \<Rightarrow> ('cert, 's) RemoteConnection)
   \<Rightarrow> Message list \<Rightarrow> ('cert, 's) RemoteConnection
   \<Rightarrow> 'v option \<times> ('cert, 's) RemoteConnection" where
  "await X get clr [] c =
     (case get c of
        Some v \<Rightarrow> (Some v, clr c)
      | None \<Rightarrow> (None, c))"
| "await X get clr (message # rest) c =
     (case get c of
        Some v \<Rightarrow> (Some v, clr c)
      | None \<Rightarrow>
          (case process X message c of
             None \<Rightarrow> (None, c)
           | Some c' \<Rightarrow> await X get clr rest c'))"

text \<open>Identify; \<open>nonce\<close> is what \<^verbatim>\<open>rand.Read\<close> puts into the 32-byte array.\<close>

definition Identify ::
  "('cert, 's) externals \<Rightarrow> bytes \<Rightarrow> Message list \<Rightarrow> ('cert, 's) RemoteConnection
   \<Rightarrow> error option \<times> ('cert, 's) RemoteConnection" where
  "Identify X nonce msgs c =
     (let c1 = c\<lparr>counterpartyNonce := nonce\<rparr>;
          c2 = sendMessage RequestIdentify nonce c1
      in case await X remoteIdentityChan (\<lambda>d. d\<lparr>remoteIdentityChan := None\<rparr>) msgs c2 of
           (Some v, c3) \<Rightarrow> (None, c3)
         | (None, c3) \<Rightarrow> (Some ErrTimeout, c3))"

definition CardPair ::
  "('cert, 's) externals \<Rightarrow> bytes \<Rightarrow> Message list \<Rightarrow> ('cert, 's) RemoteConnection
   \<Rightarrow> (bytes \<times> error option) \<times> ('cert, 's) RemoteConnection" where
  "CardPair X initPairingData msgs c =
     (let c1 = sendMessage RequestCardPair1 initPairingData c
      in case await X cardPair1DataChan (\<lambda>d. d\<lparr>cardPair1DataChan := None\<rparr>) msgs c1 of
           (Some cardPairData, c2) \<Rightarrow> ((cardPairData, None), c2)
         | (None, c2) \<Rightarrow> (([], Some ErrTimeout), c2))"

definition CardPair2 ::
  "bytes \<Rightarrow> ('cert, 's) RemoteConnection
   \<Rightarrow> (bytes \<times> error option) \<times> ('cert, 's) RemoteConnection" where
  "CardPair2 cardPairData c = (([], None), c)"

definition FinalizeCardPair ::
  "('cert, 's) externals \<Rightarrow> bytes \<Rightarrow> Message list \<Rightarrow> ('cert, 's) RemoteConnection
   \<Rightarrow> error option \<times> ('cert, 's) RemoteConnection" where
  "FinalizeCardPair X cardPair2Data msgs c =
     (let c1 = sendMessage RequestFinalizeCardPair cardPair2Data c
      in if \<not> pairFinalized c1 then
           (case await X finalizeCardPairDataChan (\<lambda>d. d\<lparr>finalizeCardPairDataChan := None\<rparr>)
                   msgs c1 of
              (Some errorbytes, c2) \<Rightarrow>
                if length errorbytes > 0 then (Some (ErrorsNew errorbytes), c2) else (None, c2)
            | (None, c2) \<Rightarrow> (Some ErrTimeout, c2))
         else
           (let c2 = c1\<lparr>pairFinalized := True\<rparr>
            in (None, c2\<lparr>session := (session c2)\<lparr>RemoteCard := Some (self c2)\<rparr>\<rparr>)))"

definition GetCertificate ::
  "('cert, 's) externals \<Rightarrow> Message list \<Rightarrow> ('cert, 's) RemoteConnection
   \<Rightarrow> ('cert option \<times> error option) \<times> ('cert, 's) RemoteConnection" where
  "GetCertificate X msgs c =
     (case remoteCertificate c of
        Some cached \<Rightarrow> ((Some cached, None), c)
      | None \<Rightarrow>
          (let c1 = sendMessage RequestCertificate [] c
           in case await X remoteCertificateChan (\<lambda>d. d\<lparr>remoteCertificateChan := None\<rparr>)
                     msgs c1 of
                (Some cert, c2) \<Rightarrow> ((Some cert, None), c2\<lparr>remoteCertificate := Some cert\<rparr>)
              | (None, c2) \<Rightarrow> ((None, Some ErrTimeout), c2)))"

text \<open>
  ConnectToCard has two waits: \<open>msgs1\<close> are handled during the wait for the server's
  notification (a wait that only happens when identifiedWithServer is not set), \<open>msgs2\<close>
  during the wait for the peer.
\<close>

definition ConnectToCard ::
  "('cert, 's) externals \<Rightarrow> bytes \<Rightarrow> Message list \<Rightarrow> Message list
   \<Rightarrow> ('cert, 's) RemoteConnection \<Rightarrow> error option \<times> ('cert, 's) RemoteConnection" where
  "ConnectToCard X cardID msgs1 msgs2 c =
     (case (if \<not> identifiedWithServer c
            then await X identifiedWithServerChan (\<lambda>d. d\<lparr>identifiedWithServerChan := None\<rparr>)
                   msgs1 c
            else (Some True, c)) of
        (None, c1) \<Rightarrow> (Some ErrTimeout, c1)
      | (Some v, c1) \<Rightarrow>
          (let c2 = sendMessage RequestConnectCard2Card cardID c1
           in case await X connectedToCardChan (\<lambda>d. d\<lparr>connectedToCardChan := None\<rparr>)
                     msgs2 c2 of
                (None, c3) \<Rightarrow> (Some ErrTimeout, c3\<lparr>conn := Closed\<rparr>)
              | (Some w, c3) \<Rightarrow> (None, c3)))"

definition ReceivePhonons ::
  "('cert, 's) externals \<Rightarrow> bytes \<Rightarrow> Message list \<Rightarrow> ('cert, 's) RemoteConnection
   \<Rightarrow> error option \<times> ('cert, 's) RemoteConnection" where
  "ReceivePhonons X PhononTransfer msgs c =
     (let c1 = sendMessage RequestReceivePhonon PhononTransfer c
      in case await X phononAckChan (\<lambda>d. d\<lparr>phononAckChan := None\<rparr>) msgs c1 of
           (None, c2) \<Rightarrow> (Some ErrTimeout, c2)
         | (Some v, c2) \<Rightarrow> (None, c2))"

definition GenerateInvoice ::
  "('cert, 's) RemoteConnection \<Rightarrow> (bytes \<times> error option) \<times> ('cert, 's) RemoteConnection" where
  "GenerateInvoice c = (([], None), c)"

definition ReceiveInvoice ::
  "bytes \<Rightarrow> ('cert, 's) RemoteConnection \<Rightarrow> error option \<times> ('cert, 's) RemoteConnection" where
  "ReceiveInvoice invoiceData c = (None, c)"

subsection \<open>Histories of a connection\<close>

text \<open>
  What can happen to a connection after Connect: the dispatch loop handles an envelope
  while no call is waiting, or the owner calls one of the methods, with the envelopes
  handled during its waits. A handler, and the statements of a method between two
  waits, are taken as one step each: the interleavings inside them, which the source
  does not synchronise, are outside this model. An envelope whose handler blocks
  leaves the connection as it is.
\<close>

datatype event =
    Incoming Message
  | CallIdentify bytes "Message list"
  | CallCardPair bytes "Message list"
  | CallCardPair2 bytes
  | CallFinalizeCardPair bytes "Message list"
  | CallGetCertificate "Message list"
  | CallConnectToCard bytes "Message list" "Message list"
  | CallReceivePhonons bytes "Message list"
  | CallGenerateInvoice
  | CallReceiveInvoice bytes

fun step ::
  "('cert, 's) externals \<Rightarrow> ('cert, 's) RemoteConnection \<Rightarrow> event
   \<Rightarrow> ('cert, 's) RemoteConnection" where
  "step X c (Incoming m) = HandleIncoming X [m] c"
| "step X c (CallIdentify nonce msgs) = snd (Identify X nonce msgs c)"
| "step X c (CallCardPair d msgs) = snd (CardPair X d msgs c)"
| "step X c (CallCardPair2 d) = snd (CardPair2 d c)"
| "step X c (CallFinalizeCardPair d msgs) = snd (FinalizeCardPair X d msgs c)"
| "step X c (CallGetCertificate msgs) = snd (GetCertificate X msgs c)"
| "step X c (CallConnectToCard cardID msgs1 msgs2) = snd (ConnectToCard X cardID msgs1 msgs2 c)"
| "step X c (CallReceivePhonons d msgs) = snd (ReceivePhonons X d msgs c)"
| "step X c CallGenerateInvoice = snd (GenerateInvoice c)"
| "step X c (CallReceiveInvoice d) = snd (ReceiveInvoice d c)"

definition run ::
  "('cert, 's) externals \<Rightarrow> event list \<Rightarrow> ('cert, 's) RemoteConnection
   \<Rightarrow> ('cert, 's) RemoteConnection" where
  "run X evs c = foldl (step X) c evs"

subsection \<open>Notions used to state the properties\<close>

text \<open>The dispatch loop handles every envelope of the list without blocking.\<close>

fun handlesAll ::
  "('cert, 's) externals \<Rightarrow> Message list \<Rightarrow> ('cert, 's) RemoteConnection \<Rightarrow> bool" where
  "handlesAll X [] c = True"
| "handlesAll X (message # rest) c =
     (case process X message c of
        None \<Rightarrow> False
      | Some c' \<Rightarrow> handlesAll X rest c')"

text \<open>
  The envelopes of the list that the dispatch loop handles: all of them up to the first
  whose handler blocks.
\<close>

fun handled ::
  "('cert, 's) externals \<Rightarrow> Message list \<Rightarrow> ('cert, 's) RemoteConnection \<Rightarrow> Message list" where
  "handled X [] c = []"
| "handled X (message # rest) c =
     (case process X message c of
        None \<Rightarrow> []
      | Some c' \<Rightarrow> message # handled X rest c')"

text \<open>
  An identify-response payload carries a signature that validates over the nonce: it
  parses into a key and a signature, and \<^verbatim>\<open>ecdsa.Verify\<close> accepts them for the nonce.
\<close>

definition signatureValid :: "('cert, 's) externals \<Rightarrow> bytes \<Rightarrow> bytes \<Rightarrow> bool" where
  "signatureValid X nonce payload =
     (case ParseIdentifyCardResponse X payload of
        Inl e \<Rightarrow> False
      | Inr (key, sig) \<Rightarrow> ecdsaVerify X key nonce (sigR sig) (sigS sig))"

text \<open>
  The connection at address \<open>a\<close> is the session's remote card whenever its pairing is
  finalized.
\<close>

definition boundTo :: "nat \<Rightarrow> ('cert, 's) RemoteConnection \<Rightarrow> bool" where
  "boundTo a d =
      (self d = a \<and> (if pairFinalized d then RemoteCard (session d) = Some a else True))"

text \<open>
  A simulated card and simulated libraries, for the examples. Certificates are their
  own serialisation; the hardware state counts the calls; the card's key is \<open>(1, 2)\<close>
  and its signature over a nonce is the pair of the key's \<open>x\<close> plus the sum of the
  nonce's bytes and the key's \<open>y\<close>. The payload \<open>''good''\<close> parses into the key and
  its signature over the nonce \<open>nonceA\<close> below, \<open>''forged''\<close> into the key and a
  signature of nothing.
\<close>

definition simKey :: PublicKey where
  "simKey = \<lparr> keyX = 1, keyY = 2 \<rparr>"

definition byteSum :: "bytes \<Rightarrow> int" where
  "byteSum b = sum_list (map of_char b)"

definition simCard :: "(string, nat) externals" where
  "simCard =
     \<lparr> sessionGetCertificate = (\<lambda>s. ((''certA'', None), Suc s)),
       sessionIdentifyCard =
         (\<lambda>nonce s. ((simKey, \<lparr> sigR = 1 + byteSum nonce, sigS = 2 \<rparr>, None), Suc s)),
       sessionCardPair = (\<lambda>d s. ((rev d, None), Suc s)),
       sessionFinalizeCardPair =
         (\<lambda>d s. (if d = ''bad'' then Some (ErrorsNew ''refused'') else None, Suc s)),
       sessionReceivePhonons = (\<lambda>d s. (None, Suc s)),
       Serialize = (\<lambda>cert. cert),
       ParseRawCardCertificate = (\<lambda>b. if b = [] then Inl (ErrorsNew ''empty'') else Inr b),
       ParseIdentifyCardResponse =
         (\<lambda>b. if b = ''good'' then Inr (simKey, \<lparr> sigR = 3105, sigS = 2 \<rparr>)
              else if b = ''forged'' then Inr (simKey, \<lparr> sigR = 0, sigS = 0 \<rparr>)
              else Inl (ErrorsNew ''parse'')),
       ecdsaVerify = (\<lambda>key hash r s. r = keyX key + byteSum hash \<and> s = keyY key),
       gobEncode = (\<lambda>sig. [char_of (sigR sig), char_of (sigS sig)]) \<rparr>"

text \<open>The same card with another key in what IdentifyCard returns.\<close>

definition simCard' :: "(string, nat) externals" where
  "simCard' =
     simCard\<lparr> sessionIdentifyCard :=
       (\<lambda>nonce s. ((\<lparr> keyX = 5, keyY = 6 \<rparr>, \<lparr> sigR = 1 + byteSum nonce, sigS = 2 \<rparr>, None),
                   Suc s)) \<rparr>"

definition simSession :: "nat Session" where
  "simSession = \<lparr> RemoteCard = None, card = 0 \<rparr>"

text \<open>
  A fresh connection at address 1, and two nonces of 32 bytes that differ in one bit of
  the first byte.
\<close>

definition c0 :: "(string, nat) RemoteConnection" where
  "c0 = remoteConn simSession 1"

definition nonceA :: bytes where
  "nonceA = ''aaaaaaaaaaaaaaaaaaaaaaaaaaaaaaaa''"

definition nonceB :: bytes where
  "nonceB = ''caaaaaaaaaaaaaaaaaaaaaaaaaaaaaaa''"

text \<open>
  The fresh connection after the server's notification has been handled, two
  identify-responses and an error notification.
\<close>

definition cIdentified :: "(string, nat) RemoteConnection" where
  "cIdentified = HandleIncoming simCard [\<lparr> Name = MessageIdentifiedWithServer, Payload = [] \<rparr>] c0"

definition goodResponse :: Message where
  "goodResponse = \<lparr> Name = ResponseIdentify, Payload = ''good'' \<rparr>"

definition forgedResponse :: Message where
  "forgedResponse = \<lparr> Name = ResponseIdentify, Payload = ''forged'' \<rparr>"

definition errorNote :: Message where
  "errorNote = \<lparr> Name = MessageError, Payload = ''busy'' \<rparr>"

text \<open>
  A history that sets the three flags (the server's notification, an identify exchange
  with the valid response, the peer's finalize request), and a history to follow it (a
  finalize request that the card refuses, a call of FinalizeCardPair and a call of
  ConnectToCard that hear nothing).
\<close>

definition setsFlags :: "event list" where
  "setsFlags =
     [Incoming \<lparr> Name = MessageIdentifiedWithServer, Payload = [] \<rparr>,
      CallIdentify nonceA [goodResponse],
      Incoming \<lparr> Name = RequestFinalizeCardPair, Payload = ''final'' \<rparr>]"

definition later :: "event list" where
  "later =
     [Incoming \<lparr> Name = RequestFinalizeCardPair, Payload = ''bad'' \<rparr>,
      CallFinalizeCardPair ''bad'' [],
      CallConnectToCard ''card9'' [] []]"

text \<open>
  A history that leaves a late reply behind: FinalizeCardPair hears nothing and times
  out, then the peer's response \<open>''refused''\<close> to it arrives. And the connection
  identified with the server on which a connected-to-card notification has arrived
  with no call waiting for it.
\<close>

definition lateReply :: "event list" where
  "lateReply =
     [CallFinalizeCardPair ''final'' [],
      Incoming \<lparr> Name = ResponseFinalizeCardPair, Payload = ''refused'' \<rparr>]"

definition cNotified :: "(string, nat) RemoteConnection" where
  "cNotified = HandleIncoming simCard [\<lparr> Name = MessageConnectedToCard, Payload = [] \<rparr>] cIdentified"

section \<open>Properties of the validator\<close>

lemma Validate_ignores_claimedValue:
  "Validate b (phonon\<lparr>claimedValue := v\<rparr>) = Validate b phonon"
  by (simp add: Validate_def)

lemma Validate_true_iff:
  "Validate b phonon = (True, None) \<longleftrightarrow>
     (\<exists>addresses balance. pubKeyToAddresses b (PubKey phonon) = Inr addresses
        \<and> getBalance b addresses = Inr balance \<and> balance \<noteq> 0)"
  by (auto simp: Validate_def split: sum.splits)

text \<open>
  C3. Validate is documented to return true exactly when the balance of the key is at
  least the value stated in the phonon. The code compares the balance with zero only:
  on a chain where the key (a point of the curve, with its five addresses) controls
  1 unit, a phonon claiming 100 units is reported as backed.
\<close>

theorem C3_Validate_backed_below_claim:
  "(keyY generatorKey) ^ 2 mod secp256k1P = ((keyX generatorKey) ^ 3 + 7) mod secp256k1P
   \<and> pubKeyToAddresses oneUnitChain (PubKey phonon100) = Inr generatorAddresses
   \<and> getBalance oneUnitChain generatorAddresses = Inr 1
   \<and> sint (1 :: int64) < sint (claimedValue phonon100)
   \<and> Validate oneUnitChain phonon100 = (True, None)"
proof -
  have "(keyY generatorKey) ^ 2 mod secp256k1P = ((keyX generatorKey) ^ 3 + 7) mod secp256k1P"
    by (simp add: generatorKey_def secp256k1P_def)
  moreover have a: "pubKeyToAddresses oneUnitChain (PubKey phonon100) = Inr generatorAddresses"
    by (simp add: oneUnitChain_def phonon100_def)
  moreover have b: "getBalance oneUnitChain generatorAddresses = Inr 1"
    by (simp add: getBalance_def aggregateTransactions_def transactionLoop_def
        outputLoop_def inputLoop_def oneUnitChain_def generatorAddresses_def)
  moreover have "sint (1 :: int64) < sint (claimedValue phonon100)"
    by (simp add: phonon100_def)
  moreover have "Validate oneUnitChain phonon100 = (True, None)"
    by (simp add: Validate_def a b)
  ultimately show ?thesis by simp
qed

section \<open>Properties of the connection\<close>

lemmas handler_defs = sendCertificate_def sendIdentify_def processIdentify_def
  processCardPair1_def processFinalizeCardPair_def processReceivePhonons_def
  receiveCertificate_def sendMessage_def setCard_def

lemmas handler_splits = messageName.splits option.splits sum.splits prod.splits if_splits

lemmas sim_defs = simCard_def simCard'_def simKey_def byteSum_def simSession_def c0_def
  nonceA_def nonceB_def remoteConn_def cIdentified_def goodResponse_def forgedResponse_def
  errorNote_def cNotified_def

subsection \<open>The wait\<close>

text \<open>A property that every handler and the emptying of the channel keep holds after the wait.\<close>

lemma await_invariant:
  "(\<forall>m d d'. P d \<longrightarrow> process X m d = Some d' \<longrightarrow> P d') \<Longrightarrow> (\<forall>d. P d \<longrightarrow> P (clr d))
   \<Longrightarrow> P c \<Longrightarrow> P (snd (await X get clr msgs c))"
proof (induction msgs arbitrary: c)
  case Nil
  then show ?case by (simp split: option.splits)
next
  case (Cons m ms)
  show ?case
  proof (cases "get c")
    case (Some v)
    with Cons.prems show ?thesis by simp
  next
    case None
    show ?thesis
    proof (cases "process X m c")
      case pn: None
      with None Cons.prems show ?thesis by simp
    next
      case (Some c')
      with Cons.prems have "P c'" by blast
      with Cons.prems have "P (snd (await X get clr ms c'))" by (intro Cons.IH)
      with None Some show ?thesis by simp
    qed
  qed
qed

lemma HandleIncoming_invariant:
  assumes proc: "\<And>m d d'. P d \<Longrightarrow> process X m d = Some d' \<Longrightarrow> P d'"
  shows "P c \<Longrightarrow> P (HandleIncoming X msgs c)"
proof (induction msgs arbitrary: c)
  case Nil
  then show ?case by simp
next
  case (Cons m ms)
  then show ?case by (auto simp: proc split: option.splits)
qed

lemma HandleIncoming_frame:
  "(\<forall>m\<in>set msgs. \<forall>d d'. process X m d = Some d' \<longrightarrow> get d' = get d)
   \<Longrightarrow> get (HandleIncoming X msgs c) = get c"
proof (induction msgs arbitrary: c)
  case Nil
  then show ?case by simp
next
  case (Cons m ms)
  show ?case
  proof (cases "process X m c")
    case None
    then show ?thesis by simp
  next
    case (Some c')
    from Cons.prems have "get (HandleIncoming X ms c') = get c'" by (intro Cons.IH) simp
    with Some Cons.prems show ?thesis by simp
  qed
qed

lemma HandleIncoming_append:
  "handlesAll X pre c
   \<Longrightarrow> HandleIncoming X (pre @ post) c = HandleIncoming X post (HandleIncoming X pre c)"
  by (induction pre arbitrary: c) (auto split: option.splits)

text \<open>
  No envelope of the window fills the channel: the timer fires, and the connection is
  as the dispatch loop left it.
\<close>

lemma await_no_reply:
  "\<forall>m\<in>set msgs. \<forall>d d'. process X m d = Some d' \<longrightarrow> get d' = get d \<Longrightarrow> get c = None
   \<Longrightarrow> await X get clr msgs c = (None, HandleIncoming X msgs c)"
proof (induction msgs arbitrary: c)
  case Nil
  then show ?case by simp
next
  case (Cons m ms)
  show ?case
  proof (cases "process X m c")
    case None
    with Cons.prems show ?thesis by simp
  next
    case (Some c')
    with Cons.prems have "get c' = None" by simp
    moreover from Cons.prems
    have "\<forall>m\<in>set ms. \<forall>d d'. process X m d = Some d' \<longrightarrow> get d' = get d" by simp
    ultimately have "await X get clr ms c' = (None, HandleIncoming X ms c')"
      by (intro Cons.IH)
    with Some Cons.prems(2) show ?thesis by simp
  qed
qed

text \<open>
  The envelopes before the reply are handled without blocking and none of them fills
  the channel; the reply fills it: the caller receives the value.
\<close>

lemma await_delivers:
  "get c = None \<Longrightarrow> (\<forall>m\<in>set pre. \<forall>d d'. process X m d = Some d' \<longrightarrow> get d' = get d)
   \<Longrightarrow> handlesAll X pre c
   \<Longrightarrow> process X r (HandleIncoming X pre c) = Some c2 \<Longrightarrow> get c2 = Some v
   \<Longrightarrow> await X get clr (pre @ r # post) c = (Some v, clr c2)"
proof (induction pre arbitrary: c)
  case Nil
  then show ?case by (cases post) simp_all
next
  case (Cons m ms)
  from Cons.prems(3) obtain c' where c': "process X m c = Some c'" and h: "handlesAll X ms c'"
    by (auto split: option.splits)
  from Cons.prems(1,2) c' have g: "get c' = None" by simp
  from Cons.prems(4) c' have r: "process X r (HandleIncoming X ms c') = Some c2" by simp
  from Cons.prems(2)
  have f: "\<forall>m\<in>set ms. \<forall>d d'. process X m d = Some d' \<longrightarrow> get d' = get d" by simp
  from g f h r Cons.prems(5) have "await X get clr (ms @ r # post) c' = (Some v, clr c2)"
    by (rule Cons.IH)
  with c' Cons.prems(1) show ?case by simp
qed

lemma await_reply:
  assumes frame: "\<forall>m\<in>set pre. \<forall>d d'. process X m d = Some d' \<longrightarrow> get d' = get d"
    and empty: "get c = None"
    and h: "handlesAll X pre c"
    and fill: "\<And>d. get d = None \<Longrightarrow> process X r d = Some (put d) \<and> get (put d) = Some v"
  shows "await X get clr (pre @ r # post) c = (Some v, clr (put (HandleIncoming X pre c)))"
proof -
  have "get (HandleIncoming X pre c) = None"
    using HandleIncoming_frame[OF frame, of c] empty by simp
  then have "process X r (HandleIncoming X pre c) = Some (put (HandleIncoming X pre c))"
    and "get (put (HandleIncoming X pre c)) = Some v"
    using fill by simp_all
  with empty frame h show ?thesis by (intro await_delivers)
qed

lemma handled_subset: "set (handled X msgs c) \<subseteq> set msgs"
  by (induction msgs arbitrary: c) (auto split: option.splits)

lemma handlesAll_handled: "handlesAll X msgs c \<Longrightarrow> handled X msgs c = msgs"
  by (induction msgs arbitrary: c) (auto split: option.splits)

text \<open>A value already in the channel is received at once; nothing of the window is handled.\<close>

lemma await_held: "get c = Some v \<Longrightarrow> await X get clr msgs c = (Some v, clr c)"
  by (cases msgs) simp_all

text \<open>
  None of the envelopes that the loop handles fills the channel: the timer fires, and
  the connection is as the dispatch loop left it.
\<close>

lemma await_unanswered:
  "get c = None
   \<Longrightarrow> \<forall>m\<in>set (handled X msgs c). \<forall>d d'. process X m d = Some d' \<longrightarrow> get d' = get d
   \<Longrightarrow> await X get clr msgs c = (None, HandleIncoming X msgs c)"
proof (induction msgs arbitrary: c)
  case Nil
  then show ?case by simp
next
  case (Cons m ms)
  show ?case
  proof (cases "process X m c")
    case None
    with Cons.prems show ?thesis by simp
  next
    case (Some c')
    from Some have h: "handled X (m # ms) c = m # handled X ms c'" by simp
    from Cons.prems(2)
    have f: "\<forall>k\<in>set (m # handled X ms c'). \<forall>d d'. process X k d = Some d' \<longrightarrow> get d' = get d"
      unfolding h .
    from f Some have "get c' = get c" by simp
    with Cons.prems(1) have "get c' = None" by simp
    moreover from f
    have "\<forall>k\<in>set (handled X ms c'). \<forall>d d'. process X k d = Some d' \<longrightarrow> get d' = get d"
      by simp
    ultimately have "await X get clr ms c' = (None, HandleIncoming X ms c')"
      by (rule Cons.IH)
    with Some Cons.prems(1) show ?thesis by simp
  qed
qed

text \<open>
  Every window is of one of two kinds: no envelope named \<open>t\<close> among those the loop
  handles, or a first envelope named \<open>t\<close> with all the envelopes before it handled.
\<close>

lemma window_cases:
  "(\<forall>m\<in>set (handled X msgs c). Name m \<noteq> t)
   \<or> (\<exists>pre p post. msgs = pre @ \<lparr> Name = t, Payload = p \<rparr> # post
         \<and> (\<forall>m\<in>set pre. Name m \<noteq> t) \<and> handlesAll X pre c)"
proof (induction msgs arbitrary: c)
  case Nil
  then show ?case by simp
next
  case (Cons m ms)
  show ?case
  proof (cases "process X m c")
    case None
    then show ?thesis by simp
  next
    case (Some c')
    show ?thesis
    proof (cases "Name m = t")
      case True
      then have "m # ms = [] @ \<lparr> Name = t, Payload = Payload m \<rparr> # ms" by simp
      moreover have "\<forall>m\<in>set []. Name m \<noteq> t" by simp
      moreover have "handlesAll X [] c" by simp
      ultimately show ?thesis by blast
    next
      case False
      from Cons.IH[of c'] show ?thesis
      proof
        assume "\<forall>m\<in>set (handled X ms c'). Name m \<noteq> t"
        with Some False show ?thesis by simp
      next
        assume "\<exists>pre p post. ms = pre @ \<lparr> Name = t, Payload = p \<rparr> # post
                  \<and> (\<forall>m\<in>set pre. Name m \<noteq> t) \<and> handlesAll X pre c'"
        then obtain pre p post where ms: "ms = pre @ \<lparr> Name = t, Payload = p \<rparr> # post"
          and np: "\<forall>m\<in>set pre. Name m \<noteq> t" and h: "handlesAll X pre c'"
          by blast
        from ms have "m # ms = (m # pre) @ \<lparr> Name = t, Payload = p \<rparr> # post" by simp
        moreover from np False have "\<forall>m'\<in>set (m # pre). Name m' \<noteq> t" by simp
        moreover from h Some have "handlesAll X (m # pre) c" by simp
        ultimately show ?thesis by blast
      qed
    qed
  qed
qed

text \<open>Handlers only append to the outgoing stream.\<close>

lemma process_encoder:
  "process X m c = Some c' \<Longrightarrow> \<exists>sent. encoder c' = encoder c @ sent"
  by (auto simp: process_def handler_defs Let_def split: handler_splits)

lemma HandleIncoming_encoder:
  "\<exists>sent. encoder (HandleIncoming X msgs c) = encoder c @ sent"
proof (induction msgs arbitrary: c)
  case Nil
  then show ?case by simp
next
  case (Cons m ms)
  show ?case
  proof (cases "process X m c")
    case None
    then show ?thesis by simp
  next
    case (Some c')
    then obtain s1 where s1: "encoder c' = encoder c @ s1" using process_encoder by blast
    from Cons.IH[of c'] obtain s2 where "encoder (HandleIncoming X ms c') = encoder c' @ s2"
      by blast
    with s1 Some show ?thesis by simp
  qed
qed

subsection \<open>What a handler leaves alone\<close>

text \<open>
  Each channel is filled by the handler of one message name only, and
  \<open>remoteIdentityChan\<close> by none; no handler writes the nonce.
\<close>

lemma process_remoteIdentityChan:
  "process X m c = Some c' \<Longrightarrow> remoteIdentityChan c' = remoteIdentityChan c"
  by (auto simp: process_def handler_defs Let_def split: handler_splits)

lemma process_counterpartyNonce:
  "process X m c = Some c' \<Longrightarrow> counterpartyNonce c' = counterpartyNonce c"
  by (auto simp: process_def handler_defs Let_def split: handler_splits)

lemma process_finalizeCardPairDataChan:
  "process X m c = Some c' \<Longrightarrow> Name m \<noteq> ResponseFinalizeCardPair
   \<Longrightarrow> finalizeCardPairDataChan c' = finalizeCardPairDataChan c"
  by (auto simp: process_def handler_defs Let_def split: handler_splits)

lemma process_cardPair1DataChan:
  "process X m c = Some c' \<Longrightarrow> Name m \<noteq> ResponseCardPair1
   \<Longrightarrow> cardPair1DataChan c' = cardPair1DataChan c"
  by (auto simp: process_def handler_defs Let_def split: handler_splits)

lemma process_remoteCertificateChan:
  "process X m c = Some c' \<Longrightarrow> Name m \<noteq> ResponseCertificate
   \<Longrightarrow> remoteCertificateChan c' = remoteCertificateChan c"
  by (auto simp: process_def handler_defs Let_def split: handler_splits)

lemma process_identifiedWithServerChan:
  "process X m c = Some c' \<Longrightarrow> Name m \<noteq> MessageIdentifiedWithServer
   \<Longrightarrow> identifiedWithServerChan c' = identifiedWithServerChan c"
  by (auto simp: process_def handler_defs Let_def split: handler_splits)

lemma process_connectedToCardChan:
  "process X m c = Some c' \<Longrightarrow> Name m \<noteq> MessageConnectedToCard
   \<Longrightarrow> connectedToCardChan c' = connectedToCardChan c"
  by (auto simp: process_def handler_defs Let_def split: handler_splits)

lemma process_phononAckChan:
  "process X m c = Some c' \<Longrightarrow> Name m \<noteq> MessagePhononAck
   \<Longrightarrow> phononAckChan c' = phononAckChan c"
  by (auto simp: process_def handler_defs Let_def split: handler_splits)

lemma frame_remoteIdentityChan:
  "\<forall>m\<in>set msgs. \<forall>d d'. process X m d = Some d' \<longrightarrow> remoteIdentityChan d' = remoteIdentityChan d"
  using process_remoteIdentityChan by blast

lemma frame_finalizeCardPairDataChan:
  "\<forall>m\<in>set msgs. Name m \<noteq> ResponseFinalizeCardPair \<Longrightarrow>
   \<forall>m\<in>set msgs. \<forall>d d'. process X m d = Some d'
      \<longrightarrow> finalizeCardPairDataChan d' = finalizeCardPairDataChan d"
  using process_finalizeCardPairDataChan by blast

lemma frame_cardPair1DataChan:
  "\<forall>m\<in>set msgs. Name m \<noteq> ResponseCardPair1 \<Longrightarrow>
   \<forall>m\<in>set msgs. \<forall>d d'. process X m d = Some d' \<longrightarrow> cardPair1DataChan d' = cardPair1DataChan d"
  using process_cardPair1DataChan by blast

lemma frame_remoteCertificateChan:
  "\<forall>m\<in>set msgs. Name m \<noteq> ResponseCertificate \<Longrightarrow>
   \<forall>m\<in>set msgs. \<forall>d d'. process X m d = Some d'
      \<longrightarrow> remoteCertificateChan d' = remoteCertificateChan d"
  using process_remoteCertificateChan by blast

lemma frame_identifiedWithServerChan:
  "\<forall>m\<in>set msgs. Name m \<noteq> MessageIdentifiedWithServer \<Longrightarrow>
   \<forall>m\<in>set msgs. \<forall>d d'. process X m d = Some d'
      \<longrightarrow> identifiedWithServerChan d' = identifiedWithServerChan d"
  using process_identifiedWithServerChan by blast

lemma frame_connectedToCardChan:
  "\<forall>m\<in>set msgs. Name m \<noteq> MessageConnectedToCard \<Longrightarrow>
   \<forall>m\<in>set msgs. \<forall>d d'. process X m d = Some d'
      \<longrightarrow> connectedToCardChan d' = connectedToCardChan d"
  using process_connectedToCardChan by blast

lemma frame_phononAckChan:
  "\<forall>m\<in>set msgs. Name m \<noteq> MessagePhononAck \<Longrightarrow>
   \<forall>m\<in>set msgs. \<forall>d d'. process X m d = Some d' \<longrightarrow> phononAckChan d' = phononAckChan d"
  using process_phononAckChan by blast

subsection \<open>Invariants of histories\<close>

lemma Connect_dialled: "Connect None s addr = Inr (remoteConn s addr)"
  by (simp add: Connect_def)

lemma Connect_failed: "Connect (Some t) s addr = Inl (ErrorsNew t)"
  by (simp add: Connect_def)

text \<open>
  A property kept by every handler and by every write that a method of the remote
  counterparty makes itself is kept by every event, hence by every history.
\<close>

lemma step_invariant:
  assumes proc: "\<And>m d d'. P d \<Longrightarrow> process X m d = Some d' \<Longrightarrow> P d'"
    and snd: "\<And>d n p. P d \<Longrightarrow> P (sendMessage n p d)"
    and ch1: "\<And>d. P d \<Longrightarrow> P (d\<lparr>remoteIdentityChan := None\<rparr>)"
    and ch2: "\<And>d. P d \<Longrightarrow> P (d\<lparr>cardPair1DataChan := None\<rparr>)"
    and ch3: "\<And>d. P d \<Longrightarrow> P (d\<lparr>finalizeCardPairDataChan := None\<rparr>)"
    and ch4: "\<And>d. P d \<Longrightarrow> P (d\<lparr>remoteCertificateChan := None\<rparr>)"
    and ch5: "\<And>d. P d \<Longrightarrow> P (d\<lparr>identifiedWithServerChan := None\<rparr>)"
    and ch6: "\<And>d. P d \<Longrightarrow> P (d\<lparr>connectedToCardChan := None\<rparr>)"
    and ch7: "\<And>d. P d \<Longrightarrow> P (d\<lparr>phononAckChan := None\<rparr>)"
    and nonce: "\<And>d n. P d \<Longrightarrow> P (d\<lparr>counterpartyNonce := n\<rparr>)"
    and close: "\<And>d. P d \<Longrightarrow> P (d\<lparr>conn := Closed\<rparr>)"
    and cache: "\<And>d v. P d \<Longrightarrow> P (d\<lparr>remoteCertificate := Some v\<rparr>)"
    and fin: "\<And>d. P d \<Longrightarrow> pairFinalized d
              \<Longrightarrow> P (d\<lparr>pairFinalized := True,
                        session := (session d)\<lparr>RemoteCard := Some (self d)\<rparr>\<rparr>)"
  shows "P c \<Longrightarrow> P (step X c ev)"
proof (cases ev)
  case (Incoming m)
  assume "P c"
  then show ?thesis using Incoming proc by (auto split: option.splits)
next
  case (CallIdentify nonce' msgs)
  assume "P c"
  then have "P (c\<lparr>counterpartyNonce := nonce'\<rparr>)" by (rule nonce)
  then have "P (sendMessage RequestIdentify nonce' (c\<lparr>counterpartyNonce := nonce'\<rparr>))"
    by (rule snd)
  then have "P (snd (await X remoteIdentityChan (\<lambda>d. d\<lparr>remoteIdentityChan := None\<rparr>) msgs
                  (sendMessage RequestIdentify nonce' (c\<lparr>counterpartyNonce := nonce'\<rparr>))))"
    using proc ch1 by (intro await_invariant[where P = P]) blast+
  then show ?thesis using CallIdentify
    by (auto simp: Identify_def Let_def split: prod.splits option.splits)
next
  case (CallCardPair d msgs)
  assume "P c"
  then have "P (sendMessage RequestCardPair1 d c)" by (rule snd)
  then have "P (snd (await X cardPair1DataChan (\<lambda>d. d\<lparr>cardPair1DataChan := None\<rparr>) msgs
                  (sendMessage RequestCardPair1 d c)))"
    using proc ch2 by (intro await_invariant[where P = P]) blast+
  then show ?thesis using CallCardPair
    by (auto simp: CardPair_def Let_def split: prod.splits option.splits)
next
  case (CallCardPair2 d)
  assume "P c"
  then show ?thesis using CallCardPair2 by (simp add: CardPair2_def)
next
  case (CallFinalizeCardPair d msgs)
  assume "P c"
  then have s: "P (sendMessage RequestFinalizeCardPair d c)" by (rule snd)
  then have "P (snd (await X finalizeCardPairDataChan (\<lambda>d. d\<lparr>finalizeCardPairDataChan := None\<rparr>)
                  msgs (sendMessage RequestFinalizeCardPair d c)))"
    using proc ch3 by (intro await_invariant[where P = P]) blast+
  moreover have "pairFinalized (sendMessage RequestFinalizeCardPair d c) \<Longrightarrow>
     P ((sendMessage RequestFinalizeCardPair d c)\<lparr>pairFinalized := True,
          session := (session (sendMessage RequestFinalizeCardPair d c))
             \<lparr>RemoteCard := Some (self (sendMessage RequestFinalizeCardPair d c))\<rparr>\<rparr>)"
    using fin[OF s] .
  ultimately show ?thesis using CallFinalizeCardPair
    by (auto simp: FinalizeCardPair_def Let_def split: prod.splits option.splits)
next
  case (CallGetCertificate msgs)
  assume p: "P c"
  then have "P (sendMessage RequestCertificate [] c)" by (rule snd)
  then have "P (snd (await X remoteCertificateChan (\<lambda>d. d\<lparr>remoteCertificateChan := None\<rparr>) msgs
                  (sendMessage RequestCertificate [] c)))"
    using proc ch4 by (intro await_invariant[where P = P]) blast+
  then show ?thesis using CallGetCertificate p
    by (auto simp: GetCertificate_def Let_def cache split: prod.splits option.splits)
next
  case (CallConnectToCard cardID msgs1 msgs2)
  assume p: "P c"
  have a1: "P (snd (await X identifiedWithServerChan (\<lambda>d. d\<lparr>identifiedWithServerChan := None\<rparr>)
                  msgs1 c))"
    using p proc ch5 by (intro await_invariant[where P = P]) blast+
  have a2: "\<And>d. P d \<Longrightarrow> P (snd (await X connectedToCardChan (\<lambda>d. d\<lparr>connectedToCardChan := None\<rparr>)
                  msgs2 (sendMessage RequestConnectCard2Card cardID d)))"
    using proc ch6 snd by (intro await_invariant[where P = P]) blast+
  show ?thesis
  proof (cases "identifiedWithServer c")
    case True
    then show ?thesis using CallConnectToCard a2[OF p]
      by (auto simp: ConnectToCard_def Let_def close split: prod.splits option.splits)
  next
    case False
    obtain r c1 where aw: "await X identifiedWithServerChan
        (\<lambda>d. d\<lparr>identifiedWithServerChan := None\<rparr>) msgs1 c = (r, c1)"
      by (cases "await X identifiedWithServerChan
        (\<lambda>d. d\<lparr>identifiedWithServerChan := None\<rparr>) msgs1 c")
    with a1 have pc1: "P c1" by simp
    show ?thesis using CallConnectToCard False aw pc1 a2[OF pc1]
      by (auto simp: ConnectToCard_def Let_def close split: prod.splits option.splits)
  qed
next
  case (CallReceivePhonons d msgs)
  assume "P c"
  then have "P (sendMessage RequestReceivePhonon d c)" by (rule snd)
  then have "P (snd (await X phononAckChan (\<lambda>d. d\<lparr>phononAckChan := None\<rparr>) msgs
                  (sendMessage RequestReceivePhonon d c)))"
    using proc ch7 by (intro await_invariant[where P = P]) blast+
  then show ?thesis using CallReceivePhonons
    by (auto simp: ReceivePhonons_def Let_def split: prod.splits option.splits)
next
  case CallGenerateInvoice
  assume "P c"
  then show ?thesis using CallGenerateInvoice by (simp add: GenerateInvoice_def)
next
  case (CallReceiveInvoice d)
  assume "P c"
  then show ?thesis using CallReceiveInvoice by (simp add: ReceiveInvoice_def)
qed

lemma run_Cons: "run X (ev # evs) c = run X evs (step X c ev)"
  by (simp add: run_def)

lemma run_Nil: "run X [] c = c"
  by (simp add: run_def)

lemma run_append: "run X (evs1 @ evs2) c = run X evs2 (run X evs1 c)"
  by (simp add: run_def)

lemma run_invariant:
  "(\<forall>d ev. P d \<longrightarrow> P (step X d ev)) \<Longrightarrow> P c \<Longrightarrow> P (run X evs c)"
  by (induction evs arbitrary: c) (simp_all add: run_Cons run_Nil)

subsection \<open>Identify, as requester\<close>

lemma step_remoteIdentityChan:
  "remoteIdentityChan c = None \<Longrightarrow> remoteIdentityChan (step X c ev) = None"
  by (rule step_invariant[where P = "\<lambda>d. remoteIdentityChan d = None"])
     (simp_all add: process_remoteIdentityChan sendMessage_def)

lemma run_remoteIdentityChan:
  "remoteIdentityChan c = None \<Longrightarrow> remoteIdentityChan (run X evs c) = None"
  by (rule run_invariant[where P = "\<lambda>d. remoteIdentityChan d = None"])
     (simp_all add: step_remoteIdentityChan)

text \<open>
  With the identify channel empty at the call, whatever arrives: the timer fires, and
  the connection is what the dispatch loop made of it after the request went out.
\<close>

lemma Identify_empty_slot:
  assumes "remoteIdentityChan c = None"
  shows "Identify X nonce msgs c
         = (Some ErrTimeout,
            HandleIncoming X msgs (sendMessage RequestIdentify nonce (c\<lparr>counterpartyNonce := nonce\<rparr>)))"
proof -
  let ?c2 = "sendMessage RequestIdentify nonce (c\<lparr>counterpartyNonce := nonce\<rparr>)"
  have "remoteIdentityChan ?c2 = None" using assms by (simp add: sendMessage_def)
  with frame_remoteIdentityChan
  have "await X remoteIdentityChan (\<lambda>d. d\<lparr>remoteIdentityChan := None\<rparr>) msgs ?c2
        = (None, HandleIncoming X msgs ?c2)"
    by (rule await_no_reply)
  then show ?thesis by (simp add: Identify_def Let_def)
qed

lemma processIdentify_eq:
  "processIdentify X msg c
   = (if signatureValid X (counterpartyNonce c) (Payload msg) then c\<lparr>verified := True\<rparr> else c)"
  by (simp add: processIdentify_def signatureValid_def split: sum.splits prod.splits)

lemma process_ResponseIdentify:
  "process X \<lparr> Name = ResponseIdentify, Payload = p \<rparr> c
   = Some (if signatureValid X (counterpartyNonce c) p then c\<lparr>verified := True\<rparr> else c)"
  by (simp add: process_def processIdentify_eq)

lemma HandleIncoming_counterpartyNonce:
  "counterpartyNonce (HandleIncoming X msgs c) = counterpartyNonce c"
proof (rule HandleIncoming_frame)
  show "\<forall>m\<in>set msgs. \<forall>d d'. process X m d = Some d'
          \<longrightarrow> counterpartyNonce d' = counterpartyNonce d"
    using process_counterpartyNonce by blast
qed

lemma Identify_response_state:
  assumes empty: "remoteIdentityChan c = None"
    and h: "handlesAll X pre (sendMessage RequestIdentify nonce (c\<lparr>counterpartyNonce := nonce\<rparr>))"
  shows "snd (Identify X nonce (pre @ [\<lparr> Name = ResponseIdentify, Payload = p \<rparr>]) c)
         = (if signatureValid X nonce p
            then (HandleIncoming X pre
                    (sendMessage RequestIdentify nonce (c\<lparr>counterpartyNonce := nonce\<rparr>)))
                   \<lparr>verified := True\<rparr>
            else HandleIncoming X pre
                   (sendMessage RequestIdentify nonce (c\<lparr>counterpartyNonce := nonce\<rparr>)))"
proof -
  let ?c2 = "sendMessage RequestIdentify nonce (c\<lparr>counterpartyNonce := nonce\<rparr>)"
  let ?c3 = "HandleIncoming X pre ?c2"
  have "counterpartyNonce ?c3 = counterpartyNonce ?c2"
    by (rule HandleIncoming_counterpartyNonce)
  then have n: "counterpartyNonce ?c3 = nonce" by (simp add: sendMessage_def)
  have "snd (Identify X nonce (pre @ [\<lparr> Name = ResponseIdentify, Payload = p \<rparr>]) c)
        = HandleIncoming X [\<lparr> Name = ResponseIdentify, Payload = p \<rparr>] ?c3"
    using empty h by (simp add: Identify_empty_slot HandleIncoming_append)
  also have "\<dots> = (if signatureValid X nonce p then ?c3\<lparr>verified := True\<rparr> else ?c3)"
    using n by (simp add: process_ResponseIdentify)
  finally show ?thesis .
qed

text \<open>
  C2. No handler delivers into \<open>remoteIdentityChan\<close>; the handler of an identify-response
  writes the flag \<open>verified\<close> at most; so on every connection that a history leads to
  from Connect, Identify ends by the timer and returns ErrTimeout, whatever the nonce
  and whatever the peer sends during the wait.
\<close>

theorem C2_Identify_never_succeeds:
  "(\<forall>m c c'. process X m c = Some c' \<longrightarrow> remoteIdentityChan c' = remoteIdentityChan c)
   \<and> (\<forall>p c. process X \<lparr> Name = ResponseIdentify, Payload = p \<rparr> c
        = Some (if signatureValid X (counterpartyNonce c) p then c\<lparr>verified := True\<rparr> else c))
   \<and> fst (Identify X nonce msgs (run X evs (remoteConn s addr))) = Some ErrTimeout"
proof (intro conjI allI impI)
  fix m c c' assume "process X m c = Some c'"
  then show "remoteIdentityChan c' = remoteIdentityChan c" by (rule process_remoteIdentityChan)
next
  fix p c
  show "process X \<lparr> Name = ResponseIdentify, Payload = p \<rparr> c
        = Some (if signatureValid X (counterpartyNonce c) p then c\<lparr>verified := True\<rparr> else c)"
    by (rule process_ResponseIdentify)
next
  have "remoteIdentityChan (remoteConn s addr :: ('a, 'b) RemoteConnection) = None"
    by (simp add: remoteConn_def)
  then have "remoteIdentityChan (run X evs (remoteConn s addr)) = None"
    by (rule run_remoteIdentityChan)
  then show "fst (Identify X nonce msgs (run X evs (remoteConn s addr))) = Some ErrTimeout"
    by (simp add: Identify_empty_slot)
qed

text \<open>
  The simulated peer answers with a valid signature; the handler accepts it, the
  identify channel stays empty, and Identify times out.
\<close>

theorem C2_Identify_never_succeeds_witness:
  "process simCard goodResponse (c0\<lparr>counterpartyNonce := nonceA\<rparr>)
     = Some (c0\<lparr>counterpartyNonce := nonceA, verified := True\<rparr>)
   \<and> remoteIdentityChan (c0\<lparr>counterpartyNonce := nonceA, verified := True\<rparr>) = None
   \<and> fst (Identify simCard nonceA [goodResponse] c0) = Some ErrTimeout"
  using C2_Identify_never_succeeds[of simCard nonceA "[goodResponse]" "[]" simSession 1]
  by (simp add: sim_defs signatureValid_def run_def)

text \<open>
  C1, as the code has it. The handler of an identify-response sets \<open>verified\<close> when the
  response parses and its signature validates over the nonce stored on the connection,
  and otherwise returns the connection as it was. In an identify exchange whose request
  carried \<open>nonce\<close>, with the response arriving after envelopes that the loop handled
  without blocking, that stored nonce is \<open>nonce\<close>: the connection after the exchange is
  the one the loop had reached, with \<open>verified\<close> set when the signature validates over
  \<open>nonce\<close>, and unchanged when it does not. What Identify returns is left out here.
\<close>

theorem C1_identify_response_sets_verified:
  "processIdentify X msg c
     = (if signatureValid X (counterpartyNonce c) (Payload msg) then c\<lparr>verified := True\<rparr> else c)
   \<and> (remoteIdentityChan c = None
        \<and> handlesAll X pre (sendMessage RequestIdentify nonce (c\<lparr>counterpartyNonce := nonce\<rparr>))
      \<longrightarrow>
        snd (Identify X nonce (pre @ [\<lparr> Name = ResponseIdentify, Payload = p \<rparr>]) c)
        = (if signatureValid X nonce p
           then (HandleIncoming X pre
                   (sendMessage RequestIdentify nonce (c\<lparr>counterpartyNonce := nonce\<rparr>)))
                  \<lparr>verified := True\<rparr>
           else HandleIncoming X pre
                  (sendMessage RequestIdentify nonce (c\<lparr>counterpartyNonce := nonce\<rparr>))))"
proof (intro conjI impI)
  show "processIdentify X msg c
     = (if signatureValid X (counterpartyNonce c) (Payload msg) then c\<lparr>verified := True\<rparr> else c)"
    by (rule processIdentify_eq)
next
  assume "remoteIdentityChan c = None
        \<and> handlesAll X pre (sendMessage RequestIdentify nonce (c\<lparr>counterpartyNonce := nonce\<rparr>))"
  then show "snd (Identify X nonce (pre @ [\<lparr> Name = ResponseIdentify, Payload = p \<rparr>]) c)
        = (if signatureValid X nonce p
           then (HandleIncoming X pre
                   (sendMessage RequestIdentify nonce (c\<lparr>counterpartyNonce := nonce\<rparr>)))
                  \<lparr>verified := True\<rparr>
           else HandleIncoming X pre
                  (sendMessage RequestIdentify nonce (c\<lparr>counterpartyNonce := nonce\<rparr>)))"
    by (intro Identify_response_state) simp_all
qed

text \<open>
  On the fresh connection, after an error notification: the simulated card's signature
  over \<open>nonceA\<close> sets \<open>verified\<close>; the same signature does not validate over \<open>nonceB\<close>,
  one bit away, and the forged one validates over neither, and \<open>verified\<close> stays false.
\<close>

theorem C1_identify_response_sets_verified_witness:
  "remoteIdentityChan c0 = None
   \<and> handlesAll simCard [errorNote]
        (sendMessage RequestIdentify nonceA (c0\<lparr>counterpartyNonce := nonceA\<rparr>))
   \<and> signatureValid simCard nonceA ''good''
   \<and> verified (snd (Identify simCard nonceA [errorNote, goodResponse] c0))
   \<and> \<not> signatureValid simCard nonceB ''good''
   \<and> \<not> verified (snd (Identify simCard nonceB [errorNote, goodResponse] c0))
   \<and> \<not> signatureValid simCard nonceA ''forged''
   \<and> \<not> verified (snd (Identify simCard nonceA [errorNote, forgedResponse] c0))"
proof -
  note T = C1_identify_response_sets_verified[where X = simCard and c = c0
      and pre = "[errorNote]"]
  have e: "remoteIdentityChan c0 = None" by (simp add: sim_defs)
  have h: "handlesAll simCard [errorNote] (sendMessage RequestIdentify n (c0\<lparr>counterpartyNonce := n\<rparr>))"
    for n by (simp add: process_def errorNote_def)
  have v: "signatureValid simCard nonceA ''good''" "\<not> signatureValid simCard nonceB ''good''"
    "\<not> signatureValid simCard nonceA ''forged''"
    by (simp_all add: sim_defs signatureValid_def)
  have "verified (snd (Identify simCard nonceA [errorNote, goodResponse] c0))"
    using T[where nonce = nonceA and p = "''good''"] e h[of nonceA] v(1)
    by (simp add: goodResponse_def)
  moreover have "\<not> verified (snd (Identify simCard nonceB [errorNote, goodResponse] c0))"
    using T[where nonce = nonceB and p = "''good''"] e h[of nonceB] v(2)
    by (simp add: goodResponse_def errorNote_def process_def sendMessage_def c0_def
        remoteConn_def)
  moreover have "\<not> verified (snd (Identify simCard nonceA [errorNote, forgedResponse] c0))"
    using T[where nonce = nonceA and p = "''forged''"] e h[of nonceA] v(3)
    by (simp add: forgedResponse_def errorNote_def process_def sendMessage_def c0_def
        remoteConn_def)
  ultimately show ?thesis using e h[of nonceA] v by simp
qed

text \<open>
  The claim as written fails. After one exchange with a valid signature, a second
  exchange (fresh nonce \<open>nonceB\<close>) that receives the forged response ends with
  \<open>verified\<close> still true, though the signature does not validate; and on the same
  connection Identify returns the same value for the forged response as for the valid
  one, so the failed verification reaches the caller in no way.
\<close>

theorem C1_identify_counterexample:
  "\<not> signatureValid simCard nonceB ''forged''
   \<and> verified (snd (Identify simCard nonceB [forgedResponse]
                      (snd (Identify simCard nonceA [goodResponse] c0))))
   \<and> fst (Identify simCard nonceA [forgedResponse] c0)
       = fst (Identify simCard nonceA [goodResponse] c0)"
  by (simp add: sim_defs signatureValid_def sendMessage_def Identify_def process_def
      processIdentify_def)

subsection \<open>Identify, as responder\<close>

lemma sendIdentify_payload:
  "sessionIdentifyCard X (Payload msg) (card (session c)) = ((key, sig, None), s) \<Longrightarrow>
   sendIdentify X msg c = sendMessage ResponseIdentify (gobEncode X sig) (setCard s c)"
  by (simp add: sendIdentify_def)

lemma sendIdentify_error:
  "sessionIdentifyCard X (Payload msg) (card (session c)) = ((key, sig, Some e), s) \<Longrightarrow>
   sendIdentify X msg c = setCard s c"
  by (simp add: sendIdentify_def)

text \<open>
  C8. The responder is to answer with the local public key and the signature. The code
  drops the key that IdentifyCard returns and sends the encoding of the signature
  alone: two cards with different keys and the same signature over \<open>nonceA\<close> send the
  same identify-response, so no parser can read the key out of it.
\<close>

theorem C8_response_without_key:
  "fst (fst (sessionIdentifyCard simCard nonceA 0)) = \<lparr> keyX = 1, keyY = 2 \<rparr>
   \<and> fst (fst (sessionIdentifyCard simCard' nonceA 0)) = \<lparr> keyX = 5, keyY = 6 \<rparr>
   \<and> encoder (sendIdentify simCard \<lparr> Name = RequestIdentify, Payload = nonceA \<rparr> c0)
       = [\<lparr> Name = ResponseIdentify, Payload = gobEncode simCard \<lparr> sigR = 3105, sigS = 2 \<rparr> \<rparr>]
   \<and> encoder (sendIdentify simCard' \<lparr> Name = RequestIdentify, Payload = nonceA \<rparr> c0)
       = encoder (sendIdentify simCard \<lparr> Name = RequestIdentify, Payload = nonceA \<rparr> c0)"
proof -
  have k: "sessionIdentifyCard simCard nonceA 0
           = ((\<lparr> keyX = 1, keyY = 2 \<rparr>, \<lparr> sigR = 3105, sigS = 2 \<rparr>, None), Suc 0)"
    by (simp add: sim_defs)
  have k': "sessionIdentifyCard simCard' nonceA 0
            = ((\<lparr> keyX = 5, keyY = 6 \<rparr>, \<lparr> sigR = 3105, sigS = 2 \<rparr>, None), Suc 0)"
    by (simp add: sim_defs)
  have s: "card (session c0) = 0" by (simp add: sim_defs)
  have "sendIdentify simCard \<lparr> Name = RequestIdentify, Payload = nonceA \<rparr> c0
        = sendMessage ResponseIdentify (gobEncode simCard \<lparr> sigR = 3105, sigS = 2 \<rparr>)
            (setCard (Suc 0) c0)"
    by (rule sendIdentify_payload) (simp add: k s)
  moreover
  have "sendIdentify simCard' \<lparr> Name = RequestIdentify, Payload = nonceA \<rparr> c0
        = sendMessage ResponseIdentify (gobEncode simCard' \<lparr> sigR = 3105, sigS = 2 \<rparr>)
            (setCard (Suc 0) c0)"
    by (rule sendIdentify_payload) (simp add: k' s)
  moreover have "gobEncode simCard' = gobEncode simCard" by (simp add: simCard'_def)
  moreover have "encoder c0 = []" by (simp add: c0_def remoteConn_def)
  ultimately show ?thesis using k k' by (simp add: sendMessage_def setCard_def)
qed

subsection \<open>FinalizeCardPair\<close>

lemma processFinalizeCardPair_success:
  "sessionFinalizeCardPair X (Payload msg) (card (session c)) = (None, s) \<Longrightarrow>
   processFinalizeCardPair X msg c
   = (sendMessage ResponseFinalizeCardPair [] (setCard s c))
       \<lparr>pairFinalized := True, session := \<lparr> RemoteCard = Some (self c), card = s \<rparr>\<rparr>"
  by (simp add: processFinalizeCardPair_def sendMessage_def setCard_def Let_def)

lemma processFinalizeCardPair_failure:
  "sessionFinalizeCardPair X (Payload msg) (card (session c)) = (Some e, s) \<Longrightarrow>
   processFinalizeCardPair X msg c
   = sendMessage ResponseFinalizeCardPair (Error e) (setCard s c)"
  by (simp add: processFinalizeCardPair_def)

lemma FinalizeCardPair_already:
  "pairFinalized c \<Longrightarrow>
   FinalizeCardPair X d msgs c
   = (None, (sendMessage RequestFinalizeCardPair d c)
              \<lparr>pairFinalized := True, session := (session c)\<lparr>RemoteCard := Some (self c)\<rparr>\<rparr>)"
  by (simp add: FinalizeCardPair_def sendMessage_def Let_def)

lemma FinalizeCardPair_response:
  assumes "\<not> pairFinalized c" and "finalizeCardPairDataChan c = None"
    and "\<forall>m\<in>set pre. Name m \<noteq> ResponseFinalizeCardPair"
    and "handlesAll X pre (sendMessage RequestFinalizeCardPair d c)"
  shows "FinalizeCardPair X d (pre @ \<lparr> Name = ResponseFinalizeCardPair, Payload = p \<rparr> # post) c
         = (if p = [] then None else Some (ErrorsNew p),
            (HandleIncoming X pre (sendMessage RequestFinalizeCardPair d c))
              \<lparr>finalizeCardPairDataChan := None\<rparr>)"
proof -
  let ?c1 = "sendMessage RequestFinalizeCardPair d c"
  have e: "finalizeCardPairDataChan ?c1 = None" using assms(2) by (simp add: sendMessage_def)
  have "await X finalizeCardPairDataChan (\<lambda>d. d\<lparr>finalizeCardPairDataChan := None\<rparr>)
          (pre @ \<lparr> Name = ResponseFinalizeCardPair, Payload = p \<rparr> # post) ?c1
        = (Some p, (\<lambda>d. d\<lparr>finalizeCardPairDataChan := None\<rparr>)
                     ((\<lambda>d. d\<lparr>finalizeCardPairDataChan := Some p\<rparr>) (HandleIncoming X pre ?c1)))"
    using frame_finalizeCardPairDataChan[OF assms(3)] e assms(4)
    by (rule await_reply) (simp add: process_def)
  moreover have "\<not> pairFinalized ?c1" using assms(1) by (simp add: sendMessage_def)
  ultimately show ?thesis by (simp add: FinalizeCardPair_def Let_def)
qed

lemma FinalizeCardPair_held:
  assumes "\<not> pairFinalized c" and "finalizeCardPairDataChan c = Some p"
  shows "FinalizeCardPair X d msgs c
         = (if p = [] then None else Some (ErrorsNew p),
            (sendMessage RequestFinalizeCardPair d c)\<lparr>finalizeCardPairDataChan := None\<rparr>)"
proof -
  let ?c1 = "sendMessage RequestFinalizeCardPair d c"
  have "finalizeCardPairDataChan ?c1 = Some p" using assms(2) by (simp add: sendMessage_def)
  then have "await X finalizeCardPairDataChan (\<lambda>d. d\<lparr>finalizeCardPairDataChan := None\<rparr>) msgs ?c1
        = (Some p, ?c1\<lparr>finalizeCardPairDataChan := None\<rparr>)"
    by (rule await_held)
  moreover have "\<not> pairFinalized ?c1" using assms(1) by (simp add: sendMessage_def)
  ultimately show ?thesis by (simp add: FinalizeCardPair_def Let_def)
qed

lemma FinalizeCardPair_unanswered:
  assumes "\<not> pairFinalized c" and "finalizeCardPairDataChan c = None"
    and "\<forall>m\<in>set (handled X msgs (sendMessage RequestFinalizeCardPair d c)).
           Name m \<noteq> ResponseFinalizeCardPair"
  shows "FinalizeCardPair X d msgs c
         = (Some ErrTimeout, HandleIncoming X msgs (sendMessage RequestFinalizeCardPair d c))"
proof -
  let ?c1 = "sendMessage RequestFinalizeCardPair d c"
  have e: "finalizeCardPairDataChan ?c1 = None" using assms(2) by (simp add: sendMessage_def)
  have "await X finalizeCardPairDataChan (\<lambda>d. d\<lparr>finalizeCardPairDataChan := None\<rparr>) msgs ?c1
        = (None, HandleIncoming X msgs ?c1)"
    using e frame_finalizeCardPairDataChan[OF assms(3)] by (rule await_unanswered)
  moreover have "\<not> pairFinalized ?c1" using assms(1) by (simp add: sendMessage_def)
  ultimately show ?thesis by (simp add: FinalizeCardPair_def Let_def)
qed

text \<open>
  C5, as the code has it. The initiator's FinalizeCardPair, for every call. With
  \<open>pairFinalized\<close> set at the call it returns nil whatever the window holds: nothing
  of the window is handled, there is no wait. Otherwise it takes the first payload that
  the finalize channel offers. A payload found in the channel at the call (the reply to
  an earlier call, come late) is taken at once, with nothing of the window handled. With
  the channel empty at the call, the payload of the first finalize-pair response is
  taken, when the loop handles the envelopes before it. A payload that is empty gives
  nil, a non-empty payload \<open>p\<close> gives the error \<^verbatim>\<open>errors.New(p)\<close>, whose text is \<open>p\<close>.
  With the channel empty at the call and no finalize-pair response among the envelopes
  that the loop handles, the call returns ErrTimeout. Every window is of one of these
  two kinds. In each case the request has gone to the outgoing stream.
\<close>

theorem C5_FinalizeCardPair_results:
  "(pairFinalized c \<longrightarrow>
      FinalizeCardPair X d msgs c
      = (None,
         c\<lparr>encoder := encoder c @ [\<lparr> Name = RequestFinalizeCardPair, Payload = d \<rparr>],
           pairFinalized := True,
           session := (session c)\<lparr>RemoteCard := Some (self c)\<rparr>\<rparr>))
   \<and> (\<not> pairFinalized c \<and> finalizeCardPairDataChan c = Some p \<longrightarrow>
      FinalizeCardPair X d msgs c
      = (if p = [] then None else Some (ErrorsNew p),
         c\<lparr>encoder := encoder c @ [\<lparr> Name = RequestFinalizeCardPair, Payload = d \<rparr>],
           finalizeCardPairDataChan := None\<rparr>))
   \<and> (\<not> pairFinalized c \<and> finalizeCardPairDataChan c = None
        \<and> (\<forall>m\<in>set pre. Name m \<noteq> ResponseFinalizeCardPair)
        \<and> handlesAll X pre
             (c\<lparr>encoder := encoder c @ [\<lparr> Name = RequestFinalizeCardPair, Payload = d \<rparr>]\<rparr>)
      \<longrightarrow>
      FinalizeCardPair X d
        (pre @ \<lparr> Name = ResponseFinalizeCardPair, Payload = p \<rparr> # post) c
      = (if p = [] then None else Some (ErrorsNew p),
         (HandleIncoming X pre
            (c\<lparr>encoder := encoder c @ [\<lparr> Name = RequestFinalizeCardPair, Payload = d \<rparr>]\<rparr>))
           \<lparr>finalizeCardPairDataChan := None\<rparr>))
   \<and> (\<not> pairFinalized c \<and> finalizeCardPairDataChan c = None
        \<and> (\<forall>m\<in>set (handled X msgs
                (c\<lparr>encoder := encoder c @ [\<lparr> Name = RequestFinalizeCardPair, Payload = d \<rparr>]\<rparr>)).
              Name m \<noteq> ResponseFinalizeCardPair)
      \<longrightarrow>
      FinalizeCardPair X d msgs c
      = (Some ErrTimeout,
         HandleIncoming X msgs
           (c\<lparr>encoder := encoder c @ [\<lparr> Name = RequestFinalizeCardPair, Payload = d \<rparr>]\<rparr>)))
   \<and> ((\<forall>m\<in>set (handled X msgs
                (c\<lparr>encoder := encoder c @ [\<lparr> Name = RequestFinalizeCardPair, Payload = d \<rparr>]\<rparr>)).
              Name m \<noteq> ResponseFinalizeCardPair)
        \<or> (\<exists>pre p post. msgs = pre @ \<lparr> Name = ResponseFinalizeCardPair, Payload = p \<rparr> # post
              \<and> (\<forall>m\<in>set pre. Name m \<noteq> ResponseFinalizeCardPair)
              \<and> handlesAll X pre
                   (c\<lparr>encoder := encoder c @ [\<lparr> Name = RequestFinalizeCardPair, Payload = d \<rparr>]\<rparr>)))
   \<and> Error (ErrorsNew p) = p"
proof -
  let ?c1 = "c\<lparr>encoder := encoder c @ [\<lparr> Name = RequestFinalizeCardPair, Payload = d \<rparr>]\<rparr>"
  have s: "sendMessage RequestFinalizeCardPair d c = ?c1" by (simp add: sendMessage_def)
  have 1: "pairFinalized c \<Longrightarrow> FinalizeCardPair X d msgs c
      = (None, ?c1\<lparr>pairFinalized := True, session := (session c)\<lparr>RemoteCard := Some (self c)\<rparr>\<rparr>)"
    using FinalizeCardPair_already[of c X d msgs] by (simp add: s)
  have 2: "\<not> pairFinalized c \<and> finalizeCardPairDataChan c = Some p \<Longrightarrow>
      FinalizeCardPair X d msgs c
      = (if p = [] then None else Some (ErrorsNew p), ?c1\<lparr>finalizeCardPairDataChan := None\<rparr>)"
    using FinalizeCardPair_held[of c p X d msgs] by (simp add: s)
  have 3: "\<not> pairFinalized c \<and> finalizeCardPairDataChan c = None
        \<and> (\<forall>m\<in>set pre. Name m \<noteq> ResponseFinalizeCardPair) \<and> handlesAll X pre ?c1 \<Longrightarrow>
      FinalizeCardPair X d (pre @ \<lparr> Name = ResponseFinalizeCardPair, Payload = p \<rparr> # post) c
      = (if p = [] then None else Some (ErrorsNew p),
         (HandleIncoming X pre ?c1)\<lparr>finalizeCardPairDataChan := None\<rparr>)"
    using FinalizeCardPair_response[of c pre X d p post] by (simp add: s)
  have 4: "\<not> pairFinalized c \<and> finalizeCardPairDataChan c = None
        \<and> (\<forall>m\<in>set (handled X msgs ?c1). Name m \<noteq> ResponseFinalizeCardPair) \<Longrightarrow>
      FinalizeCardPair X d msgs c = (Some ErrTimeout, HandleIncoming X msgs ?c1)"
    using FinalizeCardPair_unanswered[of c X msgs d] by (simp add: s)
  have 5: "(\<forall>m\<in>set (handled X msgs ?c1). Name m \<noteq> ResponseFinalizeCardPair)
        \<or> (\<exists>pre p post. msgs = pre @ \<lparr> Name = ResponseFinalizeCardPair, Payload = p \<rparr> # post
              \<and> (\<forall>m\<in>set pre. Name m \<noteq> ResponseFinalizeCardPair) \<and> handlesAll X pre ?c1)"
    by (rule window_cases)
  show ?thesis
    apply (intro conjI impI)
         apply (erule 1)
        apply (erule 2)
       apply (erule 3)
      apply (erule 4)
     apply (rule 5)
    apply simp
    done
qed

text \<open>
  The cases on the simulated connection, an error notification in each window: already
  finalized; a late reply \<open>''refused''\<close> in the channel; an empty response; the
  response \<open>''refused''\<close>; no response.
\<close>

theorem C5_FinalizeCardPair_results_witness:
  "FinalizeCardPair simCard ''final'' [errorNote] (c0\<lparr>pairFinalized := True\<rparr>)
     = (None,
        c0\<lparr>encoder := [\<lparr> Name = RequestFinalizeCardPair, Payload = ''final'' \<rparr>],
           pairFinalized := True, session := \<lparr> RemoteCard = Some 1, card = 0 \<rparr>\<rparr>)
   \<and> FinalizeCardPair simCard ''final'' [errorNote] (run simCard lateReply c0)
     = (Some (ErrorsNew ''refused''),
        c0\<lparr>encoder := [\<lparr> Name = RequestFinalizeCardPair, Payload = ''final'' \<rparr>,
                       \<lparr> Name = RequestFinalizeCardPair, Payload = ''final'' \<rparr>]\<rparr>)
   \<and> FinalizeCardPair simCard ''final''
        [errorNote, \<lparr> Name = ResponseFinalizeCardPair, Payload = [] \<rparr>] c0
     = (None, c0\<lparr>encoder := [\<lparr> Name = RequestFinalizeCardPair, Payload = ''final'' \<rparr>]\<rparr>)
   \<and> FinalizeCardPair simCard ''final''
        [errorNote, \<lparr> Name = ResponseFinalizeCardPair, Payload = ''refused'' \<rparr>] c0
     = (Some (ErrorsNew ''refused''),
        c0\<lparr>encoder := [\<lparr> Name = RequestFinalizeCardPair, Payload = ''final'' \<rparr>]\<rparr>)
   \<and> FinalizeCardPair simCard ''final'' [errorNote] c0
     = (Some ErrTimeout,
        c0\<lparr>encoder := [\<lparr> Name = RequestFinalizeCardPair, Payload = ''final'' \<rparr>]\<rparr>)"
proof -
  note T = C5_FinalizeCardPair_results[where X = simCard and d = "''final''"
      and msgs = "[errorNote]" and pre = "[errorNote]" and post = "[]"]
  let ?req = "\<lparr> Name = RequestFinalizeCardPair, Payload = ''final'' \<rparr>"
  have n: "\<not> pairFinalized c0" "finalizeCardPairDataChan c0 = None" "encoder c0 = []"
    "\<forall>m\<in>set [errorNote]. Name m \<noteq> ResponseFinalizeCardPair"
    by (simp_all add: sim_defs)
  have h: "handlesAll simCard [errorNote] (c0\<lparr>encoder := encoder c0 @ [?req]\<rparr>)"
    "handled simCard [errorNote] (c0\<lparr>encoder := encoder c0 @ [?req]\<rparr>) = [errorNote]"
    "HandleIncoming simCard [errorNote] (c0\<lparr>encoder := encoder c0 @ [?req]\<rparr>)
       = c0\<lparr>encoder := encoder c0 @ [?req]\<rparr>"
    by (simp_all add: process_def errorNote_def)
  have l: "run simCard lateReply c0
           = c0\<lparr>encoder := [?req], finalizeCardPairDataChan := Some ''refused''\<rparr>"
    by (simp add: sim_defs lateReply_def run_def FinalizeCardPair_def sendMessage_def
        process_def Let_def)
  have 1: "FinalizeCardPair simCard ''final'' [errorNote] (c0\<lparr>pairFinalized := True\<rparr>)
     = (None, c0\<lparr>encoder := [?req], pairFinalized := True,
                  session := \<lparr> RemoteCard = Some 1, card = 0 \<rparr>\<rparr>)"
    using T[where c = "c0\<lparr>pairFinalized := True\<rparr>" and p = "[]"]
    by (simp add: sim_defs)
  have 2: "FinalizeCardPair simCard ''final'' [errorNote] (run simCard lateReply c0)
     = (Some (ErrorsNew ''refused''), c0\<lparr>encoder := [?req, ?req]\<rparr>)"
    using T[where c = "c0\<lparr>encoder := [?req], finalizeCardPairDataChan := Some ''refused''\<rparr>"
        and p = "''refused''"] n
    by (simp add: l)
  have 3: "FinalizeCardPair simCard ''final''
        [errorNote, \<lparr> Name = ResponseFinalizeCardPair, Payload = [] \<rparr>] c0
     = (None, c0\<lparr>encoder := [?req]\<rparr>)"
    using T[where c = c0 and p = "[]"] n h by (simp add: sim_defs)
  have 4: "FinalizeCardPair simCard ''final''
        [errorNote, \<lparr> Name = ResponseFinalizeCardPair, Payload = ''refused'' \<rparr>] c0
     = (Some (ErrorsNew ''refused''), c0\<lparr>encoder := [?req]\<rparr>)"
    using T[where c = c0 and p = "''refused''"] n h by (simp add: sim_defs)
  have 5: "FinalizeCardPair simCard ''final'' [errorNote] c0
     = (Some ErrTimeout, c0\<lparr>encoder := [?req]\<rparr>)"
    using T[where c = c0 and p = "[]"] n h by (simp add: errorNote_def)
  from 1 2 3 4 5 show ?thesis by simp
qed

text \<open>
  The claim as written fails where it says that the call waits for its response and
  returns ErrTimeout when none arrives. After a call that timed out and whose reply
  \<open>''refused''\<close> came late, the next call, during which nothing arrives at all,
  returns the error \<open>''refused''\<close> at once.
\<close>

theorem C5_late_reply_counterexample:
  "\<not> pairFinalized (run simCard lateReply c0)
   \<and> finalizeCardPairDataChan (run simCard lateReply c0) = Some ''refused''
   \<and> fst (FinalizeCardPair simCard ''final'' [] (run simCard lateReply c0))
       = Some (ErrorsNew ''refused'')
   \<and> fst (FinalizeCardPair simCard ''final'' [] (run simCard lateReply c0)) \<noteq> Some ErrTimeout"
  by (simp add: sim_defs lateReply_def run_def FinalizeCardPair_def sendMessage_def
      process_def Let_def)

text \<open>
  The initiator that waited and received the empty response returns from inside the
  select: the two assignments below the \<^verbatim>\<open>if\<close> are not reached.
\<close>

lemma FinalizeCardPair_initiator_leaves_unbound:
  assumes "\<not> pairFinalized c" and "finalizeCardPairDataChan c = None"
  shows "FinalizeCardPair X d [\<lparr> Name = ResponseFinalizeCardPair, Payload = [] \<rparr>] c
         = (None, (sendMessage RequestFinalizeCardPair d c)\<lparr>finalizeCardPairDataChan := None\<rparr>)"
  using FinalizeCardPair_response[OF assms, of "[]" X d "[]" "[]"] by simp

text \<open>
  C4. The responder half holds (the two lemmas on processFinalizeCardPair above). The
  initiator half does not: on the fresh connection, FinalizeCardPair that receives the
  peer's empty response returns nil with \<open>pairFinalized\<close> still false and the session's
  RemoteCard still unset, while the responder path on the same connection sets the flag
  and binds RemoteCard to the connection.
\<close>

theorem C4_initiator_success_not_bound:
  "fst (FinalizeCardPair simCard ''final''
          [\<lparr> Name = ResponseFinalizeCardPair, Payload = [] \<rparr>] c0) = None
   \<and> pairFinalized (snd (FinalizeCardPair simCard ''final''
          [\<lparr> Name = ResponseFinalizeCardPair, Payload = [] \<rparr>] c0)) = False
   \<and> RemoteCard (session (snd (FinalizeCardPair simCard ''final''
          [\<lparr> Name = ResponseFinalizeCardPair, Payload = [] \<rparr>] c0))) = None
   \<and> pairFinalized (processFinalizeCardPair simCard
          \<lparr> Name = RequestFinalizeCardPair, Payload = ''final'' \<rparr> c0) = True
   \<and> RemoteCard (session (processFinalizeCardPair simCard
          \<lparr> Name = RequestFinalizeCardPair, Payload = ''final'' \<rparr> c0)) = Some (self c0)"
proof -
  have n: "\<not> pairFinalized c0" "finalizeCardPairDataChan c0 = None"
    "RemoteCard (session c0) = None"
    by (simp_all add: sim_defs)
  have i: "FinalizeCardPair simCard ''final''
             [\<lparr> Name = ResponseFinalizeCardPair, Payload = [] \<rparr>] c0
           = (None, (sendMessage RequestFinalizeCardPair ''final'' c0)
                      \<lparr>finalizeCardPairDataChan := None\<rparr>)"
    using n(1,2) by (rule FinalizeCardPair_initiator_leaves_unbound)
  have "sessionFinalizeCardPair simCard
          (Payload \<lparr> Name = RequestFinalizeCardPair, Payload = ''final'' \<rparr>) (card (session c0))
        = (None, Suc 0)"
    by (simp add: sim_defs)
  then have r: "processFinalizeCardPair simCard
          \<lparr> Name = RequestFinalizeCardPair, Payload = ''final'' \<rparr> c0
        = (sendMessage ResponseFinalizeCardPair [] (setCard (Suc 0) c0))
            \<lparr>pairFinalized := True, session := \<lparr> RemoteCard = Some (self c0), card = Suc 0 \<rparr>\<rparr>"
    by (rule processFinalizeCardPair_success)
  show ?thesis using n by (simp add: i r sendMessage_def)
qed

subsection \<open>GetCertificate\<close>









subsection \<open>ConnectToCard\<close>

lemma ConnectToCard_server_unanswered:
  assumes "\<not> identifiedWithServer c" and "identifiedWithServerChan c = None"
    and "\<forall>m\<in>set (handled X msgs1 c). Name m \<noteq> MessageIdentifiedWithServer"
  shows "ConnectToCard X cardID msgs1 msgs2 c = (Some ErrTimeout, HandleIncoming X msgs1 c)"
proof -
  have "await X identifiedWithServerChan (\<lambda>d. d\<lparr>identifiedWithServerChan := None\<rparr>) msgs1 c
        = (None, HandleIncoming X msgs1 c)"
    using assms(2) frame_identifiedWithServerChan[OF assms(3)] by (rule await_unanswered)
  then show ?thesis using assms(1) by (simp add: ConnectToCard_def)
qed

lemma ConnectToCard_server_notified:
  assumes "\<not> identifiedWithServer c" and "identifiedWithServerChan c = None"
    and "\<forall>m\<in>set pre. Name m \<noteq> MessageIdentifiedWithServer"
    and "handlesAll X pre c"
  shows "ConnectToCard X cardID
           (pre @ \<lparr> Name = MessageIdentifiedWithServer, Payload = p \<rparr> # post) msgs2 c
         = ConnectToCard X cardID [] msgs2
             ((HandleIncoming X pre c)\<lparr>identifiedWithServer := True,
                                       identifiedWithServerChan := None\<rparr>)"
proof -
  have "await X identifiedWithServerChan (\<lambda>d. d\<lparr>identifiedWithServerChan := None\<rparr>)
          (pre @ \<lparr> Name = MessageIdentifiedWithServer, Payload = p \<rparr> # post) c
        = (Some True, (\<lambda>d. d\<lparr>identifiedWithServerChan := None\<rparr>)
             ((\<lambda>d. d\<lparr>identifiedWithServerChan := Some True, identifiedWithServer := True\<rparr>)
                (HandleIncoming X pre c)))"
    using frame_identifiedWithServerChan[OF assms(3)] assms(2) assms(4)
    by (rule await_reply) (simp add: process_def)
  then show ?thesis using assms(1) by (simp add: ConnectToCard_def)
qed

lemma ConnectToCard_peer_held:
  assumes "identifiedWithServer c" and "connectedToCardChan c = Some v"
  shows "ConnectToCard X cardID msgs1 msgs2 c
         = (None, (sendMessage RequestConnectCard2Card cardID c)\<lparr>connectedToCardChan := None\<rparr>)"
proof -
  let ?c2 = "sendMessage RequestConnectCard2Card cardID c"
  have "connectedToCardChan ?c2 = Some v" using assms(2) by (simp add: sendMessage_def)
  then have "await X connectedToCardChan (\<lambda>d. d\<lparr>connectedToCardChan := None\<rparr>) msgs2 ?c2
        = (Some v, ?c2\<lparr>connectedToCardChan := None\<rparr>)"
    by (rule await_held)
  then show ?thesis using assms(1) by (simp add: ConnectToCard_def Let_def)
qed

lemma ConnectToCard_peer_connected:
  assumes "identifiedWithServer c" and "connectedToCardChan c = None"
    and "\<forall>m\<in>set pre. Name m \<noteq> MessageConnectedToCard"
    and "handlesAll X pre (sendMessage RequestConnectCard2Card cardID c)"
  shows "ConnectToCard X cardID msgs1
           (pre @ \<lparr> Name = MessageConnectedToCard, Payload = p \<rparr> # post) c
         = (None,
            (HandleIncoming X pre (sendMessage RequestConnectCard2Card cardID c))
              \<lparr>connectedToCardChan := None\<rparr>)"
proof -
  let ?c2 = "sendMessage RequestConnectCard2Card cardID c"
  have e: "connectedToCardChan ?c2 = None" using assms(2) by (simp add: sendMessage_def)
  have "await X connectedToCardChan (\<lambda>d. d\<lparr>connectedToCardChan := None\<rparr>)
          (pre @ \<lparr> Name = MessageConnectedToCard, Payload = p \<rparr> # post) ?c2
        = (Some True, (\<lambda>d. d\<lparr>connectedToCardChan := None\<rparr>)
             ((\<lambda>d. d\<lparr>connectedToCardChan := Some True\<rparr>) (HandleIncoming X pre ?c2)))"
    using frame_connectedToCardChan[OF assms(3)] e assms(4)
    by (rule await_reply) (simp add: process_def)
  then show ?thesis using assms(1) by (simp add: ConnectToCard_def Let_def)
qed

lemma ConnectToCard_peer_unanswered:
  assumes "identifiedWithServer c" and "connectedToCardChan c = None"
    and "\<forall>m\<in>set (handled X msgs2 (sendMessage RequestConnectCard2Card cardID c)).
           Name m \<noteq> MessageConnectedToCard"
  shows "ConnectToCard X cardID msgs1 msgs2 c
         = (Some ErrTimeout,
            (HandleIncoming X msgs2 (sendMessage RequestConnectCard2Card cardID c))
              \<lparr>conn := Closed\<rparr>)"
proof -
  let ?c2 = "sendMessage RequestConnectCard2Card cardID c"
  have e: "connectedToCardChan ?c2 = None" using assms(2) by (simp add: sendMessage_def)
  have "await X connectedToCardChan (\<lambda>d. d\<lparr>connectedToCardChan := None\<rparr>) msgs2 ?c2
        = (None, HandleIncoming X msgs2 ?c2)"
    using e frame_connectedToCardChan[OF assms(3)] by (rule await_unanswered)
  then show ?thesis using assms(1) by (simp add: ConnectToCard_def Let_def)
qed

text \<open>
  The channel of the server's notification holds a value only on a connection whose
  flag is set: the handler writes both, and only ConnectToCard empties the channel.
\<close>

lemma process_serverChan:
  "process X m c = Some c' \<Longrightarrow> identifiedWithServer c \<or> identifiedWithServerChan c = None
   \<Longrightarrow> identifiedWithServer c' \<or> identifiedWithServerChan c' = None"
  by (auto simp: process_def handler_defs Let_def split: handler_splits)

lemma step_serverChan:
  "identifiedWithServer c \<or> identifiedWithServerChan c = None
   \<Longrightarrow> identifiedWithServer (step X c ev) \<or> identifiedWithServerChan (step X c ev) = None"
  by (rule step_invariant[where P = "\<lambda>d. identifiedWithServer d \<or> identifiedWithServerChan d = None"])
     (simp_all add: process_serverChan, simp_all add: sendMessage_def)

lemma run_serverChan:
  "identifiedWithServer c \<or> identifiedWithServerChan c = None
   \<Longrightarrow> identifiedWithServer (run X evs c) \<or> identifiedWithServerChan (run X evs c) = None"
  by (rule run_invariant[where P = "\<lambda>d. identifiedWithServer d \<or> identifiedWithServerChan d = None"])
     (simp_all add: step_serverChan)

text \<open>
  C9. ConnectToCard, for every call on a connection that a history leads to from
  Connect. On such a connection the channel of the server's notification is empty
  whenever \<open>identifiedWithServer\<close> is not set (last but two of the statements below).

  Not yet identified with the server: with no notification among the envelopes that the
  loop handles in the first window, the call returns ErrTimeout, with nothing sent and
  nothing closed by the call; with the notification arriving after envelopes that the
  loop handles, the call goes on exactly as a call on the identified connection.

  Identified with the server: the request naming \<open>cardID\<close> is appended to the outgoing
  stream, where it stays whatever the handlers send after it. A notification of the peer
  found in its channel at the call is received at once, and the call returns nil; so is
  the first notification that arrives in the second window, when the loop handles the
  envelopes before it; with no notification among the envelopes that the loop handles,
  the stream is closed and the call returns ErrTimeout.

  Every window is of one of the two kinds (the last two statements).
\<close>

theorem C9_ConnectToCard_behaviour:
  "(\<not> identifiedWithServer c \<and> identifiedWithServerChan c = None
      \<and> (\<forall>m\<in>set (handled X msgs1 c). Name m \<noteq> MessageIdentifiedWithServer) \<longrightarrow>
    ConnectToCard X cardID msgs1 msgs2 c = (Some ErrTimeout, HandleIncoming X msgs1 c))
   \<and> (\<not> identifiedWithServer c \<and> identifiedWithServerChan c = None
      \<and> (\<forall>m\<in>set pre. Name m \<noteq> MessageIdentifiedWithServer) \<and> handlesAll X pre c \<longrightarrow>
    ConnectToCard X cardID
      (pre @ \<lparr> Name = MessageIdentifiedWithServer, Payload = p \<rparr> # post) msgs2 c
    = ConnectToCard X cardID [] msgs2
        ((HandleIncoming X pre c)\<lparr>identifiedWithServer := True,
                                  identifiedWithServerChan := None\<rparr>))
   \<and> (identifiedWithServer c \<and> connectedToCardChan c = Some v \<longrightarrow>
    ConnectToCard X cardID msgs1 msgs2 c
    = (None,
       c\<lparr>encoder := encoder c @ [\<lparr> Name = RequestConnectCard2Card, Payload = cardID \<rparr>],
         connectedToCardChan := None\<rparr>))
   \<and> (identifiedWithServer c \<and> connectedToCardChan c = None
      \<and> (\<forall>m\<in>set pre. Name m \<noteq> MessageConnectedToCard)
      \<and> handlesAll X pre
           (c\<lparr>encoder := encoder c @ [\<lparr> Name = RequestConnectCard2Card, Payload = cardID \<rparr>]\<rparr>)
      \<longrightarrow>
    ConnectToCard X cardID msgs1
      (pre @ \<lparr> Name = MessageConnectedToCard, Payload = p \<rparr> # post) c
    = (None,
       (HandleIncoming X pre
          (c\<lparr>encoder := encoder c @ [\<lparr> Name = RequestConnectCard2Card, Payload = cardID \<rparr>]\<rparr>))
         \<lparr>connectedToCardChan := None\<rparr>))
   \<and> (identifiedWithServer c \<and> connectedToCardChan c = None
      \<and> (\<forall>m\<in>set (handled X msgs2
              (c\<lparr>encoder := encoder c @ [\<lparr> Name = RequestConnectCard2Card, Payload = cardID \<rparr>]\<rparr>)).
            Name m \<noteq> MessageConnectedToCard)
      \<longrightarrow>
    ConnectToCard X cardID msgs1 msgs2 c
    = (Some ErrTimeout,
       (HandleIncoming X msgs2
          (c\<lparr>encoder := encoder c @ [\<lparr> Name = RequestConnectCard2Card, Payload = cardID \<rparr>]\<rparr>))
         \<lparr>conn := Closed\<rparr>))
   \<and> (\<exists>sent. encoder (HandleIncoming X msgs2
          (c\<lparr>encoder := encoder c @ [\<lparr> Name = RequestConnectCard2Card, Payload = cardID \<rparr>]\<rparr>))
        = encoder c @ \<lparr> Name = RequestConnectCard2Card, Payload = cardID \<rparr> # sent)
   \<and> (\<not> identifiedWithServer (run X evs (remoteConn s addr)) \<longrightarrow>
        identifiedWithServerChan (run X evs (remoteConn s addr)) = None)
   \<and> ((\<forall>m\<in>set (handled X msgs1 c). Name m \<noteq> MessageIdentifiedWithServer)
        \<or> (\<exists>pre p post. msgs1 = pre @ \<lparr> Name = MessageIdentifiedWithServer, Payload = p \<rparr> # post
              \<and> (\<forall>m\<in>set pre. Name m \<noteq> MessageIdentifiedWithServer) \<and> handlesAll X pre c))
   \<and> ((\<forall>m\<in>set (handled X msgs2
              (c\<lparr>encoder := encoder c @ [\<lparr> Name = RequestConnectCard2Card, Payload = cardID \<rparr>]\<rparr>)).
            Name m \<noteq> MessageConnectedToCard)
        \<or> (\<exists>pre p post. msgs2 = pre @ \<lparr> Name = MessageConnectedToCard, Payload = p \<rparr> # post
              \<and> (\<forall>m\<in>set pre. Name m \<noteq> MessageConnectedToCard)
              \<and> handlesAll X pre
                   (c\<lparr>encoder := encoder c @ [\<lparr> Name = RequestConnectCard2Card, Payload = cardID \<rparr>]\<rparr>)))"
proof -
  let ?req = "\<lparr> Name = RequestConnectCard2Card, Payload = cardID \<rparr>"
  let ?c2 = "c\<lparr>encoder := encoder c @ [?req]\<rparr>"
  let ?r = "run X evs (remoteConn s addr :: ('a, 'b) RemoteConnection)"
  have s: "sendMessage RequestConnectCard2Card cardID c = ?c2" by (simp add: sendMessage_def)
  have 1: "\<not> identifiedWithServer c \<and> identifiedWithServerChan c = None
      \<and> (\<forall>m\<in>set (handled X msgs1 c). Name m \<noteq> MessageIdentifiedWithServer) \<Longrightarrow>
    ConnectToCard X cardID msgs1 msgs2 c = (Some ErrTimeout, HandleIncoming X msgs1 c)"
    by (intro ConnectToCard_server_unanswered) simp_all
  have 2: "\<not> identifiedWithServer c \<and> identifiedWithServerChan c = None
      \<and> (\<forall>m\<in>set pre. Name m \<noteq> MessageIdentifiedWithServer) \<and> handlesAll X pre c \<Longrightarrow>
    ConnectToCard X cardID
      (pre @ \<lparr> Name = MessageIdentifiedWithServer, Payload = p \<rparr> # post) msgs2 c
    = ConnectToCard X cardID [] msgs2
        ((HandleIncoming X pre c)\<lparr>identifiedWithServer := True,
                                  identifiedWithServerChan := None\<rparr>)"
    by (intro ConnectToCard_server_notified) simp_all
  have 3: "identifiedWithServer c \<and> connectedToCardChan c = Some v \<Longrightarrow>
    ConnectToCard X cardID msgs1 msgs2 c = (None, ?c2\<lparr>connectedToCardChan := None\<rparr>)"
    using ConnectToCard_peer_held[of c v X cardID msgs1 msgs2] by (simp add: s)
  have 4: "identifiedWithServer c \<and> connectedToCardChan c = None
      \<and> (\<forall>m\<in>set pre. Name m \<noteq> MessageConnectedToCard) \<and> handlesAll X pre ?c2 \<Longrightarrow>
    ConnectToCard X cardID msgs1
      (pre @ \<lparr> Name = MessageConnectedToCard, Payload = p \<rparr> # post) c
    = (None, (HandleIncoming X pre ?c2)\<lparr>connectedToCardChan := None\<rparr>)"
    using ConnectToCard_peer_connected[of c pre X cardID msgs1 p post] by (simp add: s)
  have 5: "identifiedWithServer c \<and> connectedToCardChan c = None
      \<and> (\<forall>m\<in>set (handled X msgs2 ?c2). Name m \<noteq> MessageConnectedToCard) \<Longrightarrow>
    ConnectToCard X cardID msgs1 msgs2 c
    = (Some ErrTimeout, (HandleIncoming X msgs2 ?c2)\<lparr>conn := Closed\<rparr>)"
    using ConnectToCard_peer_unanswered[of c X msgs2 cardID msgs1] by (simp add: s)
  have 6: "\<exists>sent. encoder (HandleIncoming X msgs2 ?c2) = encoder c @ ?req # sent"
    using HandleIncoming_encoder[of X msgs2 ?c2] by auto
  have "identifiedWithServer (remoteConn s addr :: ('a, 'b) RemoteConnection)
        \<or> identifiedWithServerChan (remoteConn s addr :: ('a, 'b) RemoteConnection) = None"
    by (simp add: remoteConn_def)
  then have "identifiedWithServer ?r \<or> identifiedWithServerChan ?r = None"
    by (rule run_serverChan)
  then have 7: "\<not> identifiedWithServer ?r \<Longrightarrow> identifiedWithServerChan ?r = None" by blast
  have 8: "(\<forall>m\<in>set (handled X msgs1 c). Name m \<noteq> MessageIdentifiedWithServer)
        \<or> (\<exists>pre p post. msgs1 = pre @ \<lparr> Name = MessageIdentifiedWithServer, Payload = p \<rparr> # post
              \<and> (\<forall>m\<in>set pre. Name m \<noteq> MessageIdentifiedWithServer) \<and> handlesAll X pre c)"
    by (rule window_cases)
  have 9: "(\<forall>m\<in>set (handled X msgs2 ?c2). Name m \<noteq> MessageConnectedToCard)
        \<or> (\<exists>pre p post. msgs2 = pre @ \<lparr> Name = MessageConnectedToCard, Payload = p \<rparr> # post
              \<and> (\<forall>m\<in>set pre. Name m \<noteq> MessageConnectedToCard) \<and> handlesAll X pre ?c2)"
    by (rule window_cases)
  show ?thesis
    apply (intro conjI impI)
            apply (erule 1)
           apply (erule 2)
          apply (erule 3)
         apply (erule 4)
        apply (erule 5)
       apply (rule 6)
      apply (erule 7)
     apply (rule 8)
    apply (rule 9)
    done
qed

text \<open>
  The outcomes on the simulated connection, an error notification in each window: the
  server silent; the server's notification arriving; the peer's notification already
  there; the peer's notification arriving; the peer silent.
\<close>

theorem C9_ConnectToCard_behaviour_witness:
  "ConnectToCard simCard ''card9'' [errorNote] [] c0 = (Some ErrTimeout, c0)
   \<and> ConnectToCard simCard ''card9''
        [errorNote, \<lparr> Name = MessageIdentifiedWithServer, Payload = [] \<rparr>] [] c0
     = ConnectToCard simCard ''card9'' [] [] (c0\<lparr>identifiedWithServer := True\<rparr>)
   \<and> ConnectToCard simCard ''card9'' [] [errorNote] cNotified
     = (None,
        cNotified\<lparr>encoder := [\<lparr> Name = RequestConnectCard2Card, Payload = ''card9'' \<rparr>],
                   connectedToCardChan := None\<rparr>)
   \<and> ConnectToCard simCard ''card9'' []
        [errorNote, \<lparr> Name = MessageConnectedToCard, Payload = [] \<rparr>]
        (c0\<lparr>identifiedWithServer := True\<rparr>)
     = (None,
        c0\<lparr>encoder := [\<lparr> Name = RequestConnectCard2Card, Payload = ''card9'' \<rparr>],
           identifiedWithServer := True\<rparr>)
   \<and> ConnectToCard simCard ''card9'' [] [errorNote] (c0\<lparr>identifiedWithServer := True\<rparr>)
     = (Some ErrTimeout,
        c0\<lparr>conn := Closed,
           encoder := [\<lparr> Name = RequestConnectCard2Card, Payload = ''card9'' \<rparr>],
           identifiedWithServer := True\<rparr>)
   \<and> identifiedWithServerChan (run simCard [CallConnectToCard ''card9'' [errorNote] []] c0) = None"
proof -
  let ?ci = "c0\<lparr>identifiedWithServer := True\<rparr>"
  let ?req = "\<lparr> Name = RequestConnectCard2Card, Payload = ''card9'' \<rparr>"
  note T = C9_ConnectToCard_behaviour[where X = simCard and cardID = "''card9''" and s = simSession and addr = 1
      and evs = "[CallConnectToCard ''card9'' [errorNote] []]"]
  have n: "\<not> identifiedWithServer c0" "identifiedWithServerChan c0 = None" "encoder c0 = []"
    "connectedToCardChan c0 = None"
    by (simp_all add: sim_defs)
  have k: "identifiedWithServer cNotified" "connectedToCardChan cNotified = Some True"
    "encoder cNotified = []"
    by (simp_all add: sim_defs process_def)
  have 1: "ConnectToCard simCard ''card9'' [errorNote] [] c0 = (Some ErrTimeout, c0)"
    using T[where c = c0 and ?msgs1.0 = "[errorNote]" and ?msgs2.0 = "[]"] n
    by (simp add: process_def errorNote_def)
  have 2: "ConnectToCard simCard ''card9''
        [errorNote, \<lparr> Name = MessageIdentifiedWithServer, Payload = [] \<rparr>] [] c0
     = ConnectToCard simCard ''card9'' [] [] ?ci"
    using T[where c = c0 and pre = "[errorNote]" and p = "[]" and post = "[]"
        and ?msgs2.0 = "[]"]
    by (simp add: sim_defs process_def)
  have 3: "ConnectToCard simCard ''card9'' [] [errorNote] cNotified
     = (None, cNotified\<lparr>encoder := [?req], connectedToCardChan := None\<rparr>)"
    using T[where c = cNotified and v = True and ?msgs1.0 = "[]" and ?msgs2.0 = "[errorNote]"] k
    by simp
  have 4: "ConnectToCard simCard ''card9'' []
        [errorNote, \<lparr> Name = MessageConnectedToCard, Payload = [] \<rparr>] ?ci
     = (None, c0\<lparr>encoder := [?req], identifiedWithServer := True\<rparr>)"
    using T[where c = ?ci and pre = "[errorNote]" and p = "[]" and post = "[]"
        and ?msgs1.0 = "[]"]
    by (simp add: sim_defs process_def)
  have 5: "ConnectToCard simCard ''card9'' [] [errorNote] ?ci
     = (Some ErrTimeout, c0\<lparr>conn := Closed, encoder := [?req], identifiedWithServer := True\<rparr>)"
    using T[where c = ?ci and ?msgs2.0 = "[errorNote]" and ?msgs1.0 = "[]"]
    by (simp add: sim_defs process_def)
  have "run simCard [CallConnectToCard ''card9'' [errorNote] []] c0 = c0"
    using 1 by (simp add: run_def)
  then have 6: "identifiedWithServerChan
      (run simCard [CallConnectToCard ''card9'' [errorNote] []] c0) = None"
    using T[where c = c0] n by (simp add: c0_def)
  from 1 2 3 4 5 6 show ?thesis by simp
qed

subsection \<open>Timeouts\<close>

lemma CardPair_unanswered:
  assumes "cardPair1DataChan c = None"
    and "\<forall>m\<in>set (handled X msgs (sendMessage RequestCardPair1 d c)). Name m \<noteq> ResponseCardPair1"
  shows "CardPair X d msgs c
         = (([], Some ErrTimeout), HandleIncoming X msgs (sendMessage RequestCardPair1 d c))"
proof -
  let ?c1 = "sendMessage RequestCardPair1 d c"
  have e: "cardPair1DataChan ?c1 = None" using assms(1) by (simp add: sendMessage_def)
  have "await X cardPair1DataChan (\<lambda>d. d\<lparr>cardPair1DataChan := None\<rparr>) msgs ?c1
        = (None, HandleIncoming X msgs ?c1)"
    using e frame_cardPair1DataChan[OF assms(2)] by (rule await_unanswered)
  then show ?thesis by (simp add: CardPair_def Let_def)
qed

lemma ReceivePhonons_unanswered:
  assumes "phononAckChan c = None"
    and "\<forall>m\<in>set (handled X msgs (sendMessage RequestReceivePhonon d c)). Name m \<noteq> MessagePhononAck"
  shows "ReceivePhonons X d msgs c
         = (Some ErrTimeout, HandleIncoming X msgs (sendMessage RequestReceivePhonon d c))"
proof -
  let ?c1 = "sendMessage RequestReceivePhonon d c"
  have e: "phononAckChan ?c1 = None" using assms(1) by (simp add: sendMessage_def)
  have "await X phononAckChan (\<lambda>d. d\<lparr>phononAckChan := None\<rparr>) msgs ?c1
        = (None, HandleIncoming X msgs ?c1)"
    using e frame_phononAckChan[OF assms(2)] by (rule await_unanswered)
  then show ?thesis by (simp add: ReceivePhonons_def Let_def)
qed

lemma GetCertificate_unanswered:
  assumes "remoteCertificate c = None" and "remoteCertificateChan c = None"
    and "\<forall>m\<in>set (handled X msgs (sendMessage RequestCertificate [] c)).
           Name m \<noteq> ResponseCertificate"
  shows "GetCertificate X msgs c
         = ((None, Some ErrTimeout), HandleIncoming X msgs (sendMessage RequestCertificate [] c))"
proof -
  let ?c1 = "sendMessage RequestCertificate [] c"
  have e: "remoteCertificateChan ?c1 = None" using assms(2) by (simp add: sendMessage_def)
  have "await X remoteCertificateChan (\<lambda>d. d\<lparr>remoteCertificateChan := None\<rparr>) msgs ?c1
        = (None, HandleIncoming X msgs ?c1)"
    using e frame_remoteCertificateChan[OF assms(3)] by (rule await_unanswered)
  then show ?thesis using assms(1) by (simp add: GetCertificate_def Let_def)
qed

text \<open>
  C6, as the code has it. A call waits for a reply when it is Identify, CardPair or
  ReceivePhonons; GetCertificate with no certificate cached; FinalizeCardPair with
  \<open>pairFinalized\<close> not set; ConnectToCard, for the server when \<open>identifiedWithServer\<close>
  is not set, and for the peer on a connection identified with the server (a call that
  receives the server's notification in its first wait goes on as a call on the
  identified connection). When the channel of the reply is empty as the wait begins and
  no reply is among the envelopes that the dispatch loop handles during the wait, the
  call returns ErrTimeout, and the connection after it is the one the dispatch loop
  made, by handling the window, of the connection as the call wrote it: the request
  appended to the outgoing stream (nothing, for the wait for the server), the nonce
  replaced (Identify); and the stream is closed after the wait for the peer. With an
  empty window the loop changes nothing, so flags and cached certificate are as before.
\<close>

theorem C6_timeout_effects:
  "(remoteIdentityChan c = None
      \<and> (\<forall>m\<in>set (handled X msgs
              (c\<lparr>counterpartyNonce := nonce,
                 encoder := encoder c @ [\<lparr> Name = RequestIdentify, Payload = nonce \<rparr>]\<rparr>)).
            Name m \<noteq> ResponseIdentify)
    \<longrightarrow>
      Identify X nonce msgs c
      = (Some ErrTimeout,
         HandleIncoming X msgs
           (c\<lparr>counterpartyNonce := nonce,
              encoder := encoder c @ [\<lparr> Name = RequestIdentify, Payload = nonce \<rparr>]\<rparr>)))
   \<and> (remoteCertificate c = None \<and> remoteCertificateChan c = None
      \<and> (\<forall>m\<in>set (handled X msgs
              (c\<lparr>encoder := encoder c @ [\<lparr> Name = RequestCertificate, Payload = [] \<rparr>]\<rparr>)).
            Name m \<noteq> ResponseCertificate)
    \<longrightarrow>
      GetCertificate X msgs c
      = ((None, Some ErrTimeout),
         HandleIncoming X msgs
           (c\<lparr>encoder := encoder c @ [\<lparr> Name = RequestCertificate, Payload = [] \<rparr>]\<rparr>)))
   \<and> (cardPair1DataChan c = None
      \<and> (\<forall>m\<in>set (handled X msgs
              (c\<lparr>encoder := encoder c @ [\<lparr> Name = RequestCardPair1, Payload = d \<rparr>]\<rparr>)).
            Name m \<noteq> ResponseCardPair1)
    \<longrightarrow>
      CardPair X d msgs c
      = (([], Some ErrTimeout),
         HandleIncoming X msgs
           (c\<lparr>encoder := encoder c @ [\<lparr> Name = RequestCardPair1, Payload = d \<rparr>]\<rparr>)))
   \<and> (\<not> pairFinalized c \<and> finalizeCardPairDataChan c = None
      \<and> (\<forall>m\<in>set (handled X msgs
              (c\<lparr>encoder := encoder c @ [\<lparr> Name = RequestFinalizeCardPair, Payload = d \<rparr>]\<rparr>)).
            Name m \<noteq> ResponseFinalizeCardPair)
    \<longrightarrow>
      FinalizeCardPair X d msgs c
      = (Some ErrTimeout,
         HandleIncoming X msgs
           (c\<lparr>encoder := encoder c @ [\<lparr> Name = RequestFinalizeCardPair, Payload = d \<rparr>]\<rparr>)))
   \<and> (\<not> identifiedWithServer c \<and> identifiedWithServerChan c = None
      \<and> (\<forall>m\<in>set (handled X msgs c). Name m \<noteq> MessageIdentifiedWithServer)
    \<longrightarrow>
      ConnectToCard X d msgs msgs2 c = (Some ErrTimeout, HandleIncoming X msgs c))
   \<and> (\<not> identifiedWithServer c \<and> identifiedWithServerChan c = None
      \<and> (\<forall>m\<in>set pre. Name m \<noteq> MessageIdentifiedWithServer) \<and> handlesAll X pre c
    \<longrightarrow>
      ConnectToCard X d
        (pre @ \<lparr> Name = MessageIdentifiedWithServer, Payload = p \<rparr> # post) msgs c
      = ConnectToCard X d [] msgs
          ((HandleIncoming X pre c)\<lparr>identifiedWithServer := True,
                                    identifiedWithServerChan := None\<rparr>))
   \<and> (identifiedWithServer c \<and> connectedToCardChan c = None
      \<and> (\<forall>m\<in>set (handled X msgs
              (c\<lparr>encoder := encoder c @ [\<lparr> Name = RequestConnectCard2Card, Payload = d \<rparr>]\<rparr>)).
            Name m \<noteq> MessageConnectedToCard)
    \<longrightarrow>
      ConnectToCard X d msgs1 msgs c
      = (Some ErrTimeout,
         (HandleIncoming X msgs
            (c\<lparr>encoder := encoder c @ [\<lparr> Name = RequestConnectCard2Card, Payload = d \<rparr>]\<rparr>))
           \<lparr>conn := Closed\<rparr>))
   \<and> (phononAckChan c = None
      \<and> (\<forall>m\<in>set (handled X msgs
              (c\<lparr>encoder := encoder c @ [\<lparr> Name = RequestReceivePhonon, Payload = d \<rparr>]\<rparr>)).
            Name m \<noteq> MessagePhononAck)
    \<longrightarrow>
      ReceivePhonons X d msgs c
      = (Some ErrTimeout,
         HandleIncoming X msgs
           (c\<lparr>encoder := encoder c @ [\<lparr> Name = RequestReceivePhonon, Payload = d \<rparr>]\<rparr>)))
   \<and> HandleIncoming X [] c = c"
proof -
  have 1: "remoteIdentityChan c = None \<Longrightarrow>
      Identify X nonce msgs c
      = (Some ErrTimeout,
         HandleIncoming X msgs
           (c\<lparr>counterpartyNonce := nonce,
              encoder := encoder c @ [\<lparr> Name = RequestIdentify, Payload = nonce \<rparr>]\<rparr>))"
    using Identify_empty_slot[of c X nonce msgs] by (simp add: sendMessage_def)
  have 2: "remoteCertificate c = None \<and> remoteCertificateChan c = None
      \<and> (\<forall>m\<in>set (handled X msgs
              (c\<lparr>encoder := encoder c @ [\<lparr> Name = RequestCertificate, Payload = [] \<rparr>]\<rparr>)).
            Name m \<noteq> ResponseCertificate) \<Longrightarrow>
      GetCertificate X msgs c
      = ((None, Some ErrTimeout),
         HandleIncoming X msgs
           (c\<lparr>encoder := encoder c @ [\<lparr> Name = RequestCertificate, Payload = [] \<rparr>]\<rparr>))"
    using GetCertificate_unanswered[of c X msgs] by (simp add: sendMessage_def)
  have 3: "cardPair1DataChan c = None
      \<and> (\<forall>m\<in>set (handled X msgs
              (c\<lparr>encoder := encoder c @ [\<lparr> Name = RequestCardPair1, Payload = d \<rparr>]\<rparr>)).
            Name m \<noteq> ResponseCardPair1) \<Longrightarrow>
      CardPair X d msgs c
      = (([], Some ErrTimeout),
         HandleIncoming X msgs
           (c\<lparr>encoder := encoder c @ [\<lparr> Name = RequestCardPair1, Payload = d \<rparr>]\<rparr>))"
    using CardPair_unanswered[of c X msgs d] by (simp add: sendMessage_def)
  have 4: "\<not> pairFinalized c \<and> finalizeCardPairDataChan c = None
      \<and> (\<forall>m\<in>set (handled X msgs
              (c\<lparr>encoder := encoder c @ [\<lparr> Name = RequestFinalizeCardPair, Payload = d \<rparr>]\<rparr>)).
            Name m \<noteq> ResponseFinalizeCardPair) \<Longrightarrow>
      FinalizeCardPair X d msgs c
      = (Some ErrTimeout,
         HandleIncoming X msgs
           (c\<lparr>encoder := encoder c @ [\<lparr> Name = RequestFinalizeCardPair, Payload = d \<rparr>]\<rparr>))"
    using FinalizeCardPair_unanswered[of c X msgs d] by (simp add: sendMessage_def)
  have 5: "\<not> identifiedWithServer c \<and> identifiedWithServerChan c = None
      \<and> (\<forall>m\<in>set (handled X msgs c). Name m \<noteq> MessageIdentifiedWithServer) \<Longrightarrow>
      ConnectToCard X d msgs msgs2 c = (Some ErrTimeout, HandleIncoming X msgs c)"
    by (intro ConnectToCard_server_unanswered) simp_all
  have 6: "\<not> identifiedWithServer c \<and> identifiedWithServerChan c = None
      \<and> (\<forall>m\<in>set pre. Name m \<noteq> MessageIdentifiedWithServer) \<and> handlesAll X pre c \<Longrightarrow>
      ConnectToCard X d
        (pre @ \<lparr> Name = MessageIdentifiedWithServer, Payload = p \<rparr> # post) msgs c
      = ConnectToCard X d [] msgs
          ((HandleIncoming X pre c)\<lparr>identifiedWithServer := True,
                                    identifiedWithServerChan := None\<rparr>)"
    by (intro ConnectToCard_server_notified) simp_all
  have 7: "identifiedWithServer c \<and> connectedToCardChan c = None
      \<and> (\<forall>m\<in>set (handled X msgs
              (c\<lparr>encoder := encoder c @ [\<lparr> Name = RequestConnectCard2Card, Payload = d \<rparr>]\<rparr>)).
            Name m \<noteq> MessageConnectedToCard) \<Longrightarrow>
      ConnectToCard X d msgs1 msgs c
      = (Some ErrTimeout,
         (HandleIncoming X msgs
            (c\<lparr>encoder := encoder c @ [\<lparr> Name = RequestConnectCard2Card, Payload = d \<rparr>]\<rparr>))
           \<lparr>conn := Closed\<rparr>)"
    using ConnectToCard_peer_unanswered[of c X msgs d msgs1] by (simp add: sendMessage_def)
  have 8: "phononAckChan c = None
      \<and> (\<forall>m\<in>set (handled X msgs
              (c\<lparr>encoder := encoder c @ [\<lparr> Name = RequestReceivePhonon, Payload = d \<rparr>]\<rparr>)).
            Name m \<noteq> MessagePhononAck) \<Longrightarrow>
      ReceivePhonons X d msgs c
      = (Some ErrTimeout,
         HandleIncoming X msgs
           (c\<lparr>encoder := encoder c @ [\<lparr> Name = RequestReceivePhonon, Payload = d \<rparr>]\<rparr>))"
    using ReceivePhonons_unanswered[of c X msgs d] by (simp add: sendMessage_def)
  show ?thesis
    apply (intro conjI impI)
            apply (rule 1, simp)
           apply (erule 2)
          apply (erule 3)
         apply (erule 4)
        apply (erule 5)
       apply (erule 6)
      apply (erule 7)
     apply (erule 8)
    apply simp
    done
qed

text \<open>
  The timeouts on the simulated connection, with an error notification as the only
  envelope of each window: apart from the outgoing stream, the nonce (Identify) and the
  closed stream (ConnectToCard), the connection is the one before the call.
\<close>

theorem C6_timeout_effects_witness:
  "Identify simCard nonceA [errorNote] c0
     = (Some ErrTimeout,
        c0\<lparr>counterpartyNonce := nonceA,
           encoder := [\<lparr> Name = RequestIdentify, Payload = nonceA \<rparr>]\<rparr>)
   \<and> GetCertificate simCard [errorNote] c0
     = ((None, Some ErrTimeout),
        c0\<lparr>encoder := [\<lparr> Name = RequestCertificate, Payload = [] \<rparr>]\<rparr>)
   \<and> CardPair simCard ''init'' [errorNote] c0
     = (([], Some ErrTimeout),
        c0\<lparr>encoder := [\<lparr> Name = RequestCardPair1, Payload = ''init'' \<rparr>]\<rparr>)
   \<and> FinalizeCardPair simCard ''init'' [errorNote] c0
     = (Some ErrTimeout,
        c0\<lparr>encoder := [\<lparr> Name = RequestFinalizeCardPair, Payload = ''init'' \<rparr>]\<rparr>)
   \<and> ConnectToCard simCard ''init'' [errorNote] [] c0 = (Some ErrTimeout, c0)
   \<and> ConnectToCard simCard ''init''
        [errorNote, \<lparr> Name = MessageIdentifiedWithServer, Payload = [] \<rparr>] [errorNote] c0
     = (Some ErrTimeout,
        c0\<lparr>conn := Closed,
           encoder := [\<lparr> Name = RequestConnectCard2Card, Payload = ''init'' \<rparr>],
           identifiedWithServer := True\<rparr>)
   \<and> ConnectToCard simCard ''init'' [] [errorNote] cIdentified
     = (Some ErrTimeout,
        cIdentified\<lparr>conn := Closed,
                    encoder := [\<lparr> Name = RequestConnectCard2Card, Payload = ''init'' \<rparr>]\<rparr>)
   \<and> ReceivePhonons simCard ''init'' [errorNote] c0
     = (Some ErrTimeout,
        c0\<lparr>encoder := [\<lparr> Name = RequestReceivePhonon, Payload = ''init'' \<rparr>]\<rparr>)"
proof -
  note T = C6_timeout_effects[where X = simCard and nonce = nonceA and d = "''init''"
      and msgs = "[errorNote]" and ?msgs1.0 = "[]" and pre = "[errorNote]" and p = "[]"
      and post = "[]"]
  let ?ci = "c0\<lparr>identifiedWithServer := True\<rparr>"
  have a: "Identify simCard nonceA [errorNote] c0
     = (Some ErrTimeout,
        c0\<lparr>counterpartyNonce := nonceA,
           encoder := [\<lparr> Name = RequestIdentify, Payload = nonceA \<rparr>]\<rparr>)"
    "GetCertificate simCard [errorNote] c0
     = ((None, Some ErrTimeout),
        c0\<lparr>encoder := [\<lparr> Name = RequestCertificate, Payload = [] \<rparr>]\<rparr>)"
    "CardPair simCard ''init'' [errorNote] c0
     = (([], Some ErrTimeout),
        c0\<lparr>encoder := [\<lparr> Name = RequestCardPair1, Payload = ''init'' \<rparr>]\<rparr>)"
    "FinalizeCardPair simCard ''init'' [errorNote] c0
     = (Some ErrTimeout,
        c0\<lparr>encoder := [\<lparr> Name = RequestFinalizeCardPair, Payload = ''init'' \<rparr>]\<rparr>)"
    "ConnectToCard simCard ''init'' [errorNote] [] c0 = (Some ErrTimeout, c0)"
    "ReceivePhonons simCard ''init'' [errorNote] c0
     = (Some ErrTimeout,
        c0\<lparr>encoder := [\<lparr> Name = RequestReceivePhonon, Payload = ''init'' \<rparr>]\<rparr>)"
    "ConnectToCard simCard ''init''
        [errorNote, \<lparr> Name = MessageIdentifiedWithServer, Payload = [] \<rparr>] [errorNote] c0
     = ConnectToCard simCard ''init'' [] [errorNote] ?ci"
    using T[where c = c0 and ?msgs2.0 = "[]"]
    by (simp_all add: sim_defs process_def)
  have b: "ConnectToCard simCard ''init'' [] [errorNote] ?ci
     = (Some ErrTimeout,
        c0\<lparr>conn := Closed,
           encoder := [\<lparr> Name = RequestConnectCard2Card, Payload = ''init'' \<rparr>],
           identifiedWithServer := True\<rparr>)"
    using T[where c = ?ci and ?msgs2.0 = "[]"]
    by (simp add: sim_defs process_def)
  have c: "ConnectToCard simCard ''init'' [] [errorNote] cIdentified
     = (Some ErrTimeout,
        cIdentified\<lparr>conn := Closed,
                    encoder := [\<lparr> Name = RequestConnectCard2Card, Payload = ''init'' \<rparr>]\<rparr>)"
    using T[where c = cIdentified and ?msgs2.0 = "[]"]
    by (simp add: sim_defs process_def)
  from a b c show ?thesis by simp
qed

text \<open>
  The claim as written fails on the stream handle and on the nonce. On the connection
  already identified with the server, ConnectToCard that hears nothing from the peer
  returns ErrTimeout and has closed the stream, which was open. On the fresh
  connection, Identify that hears nothing returns ErrTimeout and has replaced the
  zeroed nonce by the new one.
\<close>

theorem C6_timeout_counterexample:
  "fst (ConnectToCard simCard ''card9'' [] [] cIdentified) = Some ErrTimeout
   \<and> conn cIdentified = Open
   \<and> conn (snd (ConnectToCard simCard ''card9'' [] [] cIdentified)) = Closed
   \<and> fst (Identify simCard nonceA [] c0) = Some ErrTimeout
   \<and> counterpartyNonce c0 = replicate 32 (CHR 0x00)
   \<and> counterpartyNonce (snd (Identify simCard nonceA [] c0)) = nonceA
   \<and> nonceA \<noteq> replicate 32 (CHR 0x00)"
proof -
  have "nonceA \<noteq> replicate 32 (CHR 0x00)"
  proof
    assume "nonceA = replicate 32 (CHR 0x00)"
    then have "hd nonceA = hd (replicate 32 (CHR 0x00))" by simp
    then show False by (simp add: nonceA_def)
  qed
  then show ?thesis
    by (simp add: simCard_def simSession_def c0_def remoteConn_def cIdentified_def
        ConnectToCard_def Identify_def sendMessage_def process_def Let_def)
qed

subsection \<open>Flags\<close>

lemma process_identifiedWithServer:
  "process X m c = Some c' \<Longrightarrow> identifiedWithServer c \<Longrightarrow> identifiedWithServer c'"
  by (auto simp: process_def handler_defs Let_def split: handler_splits)

lemma process_verified:
  "process X m c = Some c' \<Longrightarrow> verified c \<Longrightarrow> verified c'"
  by (auto simp: process_def handler_defs Let_def split: handler_splits)

lemma process_pairFinalized:
  "process X m c = Some c' \<Longrightarrow> pairFinalized c \<Longrightarrow> pairFinalized c'"
  by (auto simp: process_def handler_defs Let_def split: handler_splits)

lemma process_boundTo:
  "process X m c = Some c' \<Longrightarrow> boundTo a c \<Longrightarrow> boundTo a c'"
  by (auto simp: boundTo_def process_def handler_defs Let_def split: handler_splits)

lemma step_identifiedWithServer:
  "identifiedWithServer c \<Longrightarrow> identifiedWithServer (step X c ev)"
  by (rule step_invariant[where P = identifiedWithServer])
     (simp_all add: process_identifiedWithServer sendMessage_def)

lemma step_verified: "verified c \<Longrightarrow> verified (step X c ev)"
  by (rule step_invariant[where P = verified]) (simp_all add: process_verified sendMessage_def)

lemma step_pairFinalized: "pairFinalized c \<Longrightarrow> pairFinalized (step X c ev)"
  by (rule step_invariant[where P = pairFinalized])
     (simp_all add: process_pairFinalized sendMessage_def)

lemma step_boundTo: "boundTo a c \<Longrightarrow> boundTo a (step X c ev)"
  by (rule step_invariant[where P = "boundTo a"])
     (simp_all add: process_boundTo, simp_all add: boundTo_def sendMessage_def)

lemma run_identifiedWithServer:
  "identifiedWithServer c \<Longrightarrow> identifiedWithServer (run X evs c)"
  by (rule run_invariant[where P = identifiedWithServer]) (simp_all add: step_identifiedWithServer)

lemma run_verified: "verified c \<Longrightarrow> verified (run X evs c)"
  by (rule run_invariant[where P = verified]) (simp_all add: step_verified)

lemma run_pairFinalized: "pairFinalized c \<Longrightarrow> pairFinalized (run X evs c)"
  by (rule run_invariant[where P = pairFinalized]) (simp_all add: step_pairFinalized)

lemma run_boundTo: "boundTo a c \<Longrightarrow> boundTo a (run X evs c)"
  by (rule run_invariant[where P = "boundTo a"]) (simp_all add: step_boundTo)

text \<open>
  C10. Each of the three flags, once true, is true after every event (a handled
  envelope or a call of any method, whatever arrives during it) and so after every
  history. And for a connection made by Connect at address \<open>addr\<close>: if a history
  \<open>evs1\<close> has set \<open>pairFinalized\<close>, then after any further history \<open>evs2\<close> the flag is
  still set and the session's RemoteCard is the connection itself.
\<close>

theorem C10_flags_monotone:
  "(identifiedWithServer c \<longrightarrow> identifiedWithServer (step X c ev))
   \<and> (verified c \<longrightarrow> verified (step X c ev))
   \<and> (pairFinalized c \<longrightarrow> pairFinalized (step X c ev))
   \<and> (identifiedWithServer c \<longrightarrow> identifiedWithServer (run X evs c))
   \<and> (verified c \<longrightarrow> verified (run X evs c))
   \<and> (pairFinalized c \<longrightarrow> pairFinalized (run X evs c))
   \<and> (pairFinalized (run X evs1 (remoteConn s addr)) \<longrightarrow>
        pairFinalized (run X (evs1 @ evs2) (remoteConn s addr))
        \<and> RemoteCard (session (run X (evs1 @ evs2) (remoteConn s addr))) = Some addr
        \<and> self (run X (evs1 @ evs2) (remoteConn s addr)) = addr)"
proof -
  let ?c0 = "remoteConn s addr :: ('a, 'b) RemoteConnection"
  have "boundTo addr ?c0" by (simp add: boundTo_def remoteConn_def)
  then have b: "boundTo addr (run X (evs1 @ evs2) ?c0)" by (rule run_boundTo)
  have "pairFinalized (run X evs1 ?c0) \<Longrightarrow> pairFinalized (run X (evs1 @ evs2) ?c0)"
    by (simp add: run_append run_pairFinalized)
  with b have "pairFinalized (run X evs1 ?c0) \<longrightarrow>
        pairFinalized (run X (evs1 @ evs2) ?c0)
        \<and> RemoteCard (session (run X (evs1 @ evs2) ?c0)) = Some addr
        \<and> self (run X (evs1 @ evs2) ?c0) = addr"
    by (auto simp: boundTo_def)
  then show ?thesis
    by (simp add: step_identifiedWithServer step_verified step_pairFinalized
        run_identifiedWithServer run_verified run_pairFinalized)
qed

text \<open>
  On the simulated connection: the first history sets the three flags; they are still
  set after one more event and after the second history, and RemoteCard is bound to
  address 1.
\<close>

theorem C10_flags_monotone_witness:
  "identifiedWithServer (run simCard setsFlags c0)
   \<and> verified (run simCard setsFlags c0)
   \<and> pairFinalized (run simCard setsFlags c0)
   \<and> identifiedWithServer (step simCard (run simCard setsFlags c0) (CallIdentify nonceB [forgedResponse]))
   \<and> verified (step simCard (run simCard setsFlags c0) (CallIdentify nonceB [forgedResponse]))
   \<and> pairFinalized (step simCard (run simCard setsFlags c0) (CallIdentify nonceB [forgedResponse]))
   \<and> identifiedWithServer (run simCard later (run simCard setsFlags c0))
   \<and> verified (run simCard later (run simCard setsFlags c0))
   \<and> pairFinalized (run simCard later (run simCard setsFlags c0))
   \<and> pairFinalized (run simCard (setsFlags @ later) c0)
   \<and> RemoteCard (session (run simCard (setsFlags @ later) c0)) = Some 1"
proof -
  have f: "identifiedWithServer (run simCard setsFlags c0)"
    "verified (run simCard setsFlags c0)" "pairFinalized (run simCard setsFlags c0)"
    by (simp_all add: sim_defs setsFlags_def run_def process_def processFinalizeCardPair_def
        processIdentify_def Identify_def sendMessage_def setCard_def Let_def)
  with C10_flags_monotone[where X = simCard and c = "run simCard setsFlags c0"
      and ev = "CallIdentify nonceB [forgedResponse]" and evs = later
      and ?evs1.0 = setsFlags and ?evs2.0 = later and s = simSession and addr = 1]
  show ?thesis by (simp add: c0_def)
qed

end
